theory Spec2Isabelle
  imports Main "HOL-Library.Word"
begin

section \<open>Python values\<close>

text \<open>
  A Python \<open>str\<close> is a sequence of Unicode code points and \<open>len\<close> counts code points,
  so a \<open>str\<close> is a list of naturals. \<open>ascii\<close> embeds the string literals of the source.
  A \<open>bytes\<close> object is a list of octets.
\<close>

type_synonym pystr = "nat list"
type_synonym bytes = "8 word list"

definition ascii :: "string \<Rightarrow> pystr" where
  "ascii s = map of_char s"

text \<open>
  \<open>str.isspace\<close> for one code point, as CPython decides it: U+0009..U+000D,
  U+001C..U+0020, U+0085, U+00A0, U+1680, U+2000..U+200A, U+2028, U+2029, U+202F,
  U+205F and U+3000.
\<close>

definition isspace :: "nat \<Rightarrow> bool" where
  "isspace c \<longleftrightarrow>
     (9 \<le> c \<and> c \<le> 13) \<or> (28 \<le> c \<and> c \<le> 32) \<or> c = 133 \<or> c = 160 \<or> c = 5760 \<or>
     (8192 \<le> c \<and> c \<le> 8202) \<or> c = 8232 \<or> c = 8233 \<or> c = 8239 \<or> c = 8287 \<or>
     c = 12288"

text \<open>\<open>s.strip()\<close>: whitespace is removed at both ends.\<close>

definition strip :: "pystr \<Rightarrow> pystr" where
  "strip s = rev (dropWhile isspace (rev (dropWhile isspace s)))"

text \<open>\<open>p in s\<close> for two strings: \<open>p\<close> occurs in \<open>s\<close> as a contiguous block.\<close>

fun starts_with :: "pystr \<Rightarrow> pystr \<Rightarrow> bool" where
  "starts_with [] s = True"
| "starts_with (c # p) [] = False"
| "starts_with (c # p) (d # s) = (c = d \<and> starts_with p s)"

fun str_contains :: "pystr \<Rightarrow> pystr \<Rightarrow> bool" where
  "str_contains p [] = (p = [])"
| "str_contains p (d # s) = (starts_with p (d # s) \<or> str_contains p s)"

text \<open>
  The values \<open>request.get_json()\<close> produces and \<open>jsonify\<close> consumes. A \<open>float\<close> is
  kept as the 64 bits of its IEEE 754 encoding; a \<open>dict\<close> is an association list in
  which the first binding of a key is the one that counts.
\<close>

datatype json =
    JNull
  | JBool bool
  | JInt int
  | JFloat "64 word"
  | JStr pystr
  | JList "json list"
  | JDict "(pystr \<times> json) list"

text \<open>An exception object: its class name and \<open>str(e)\<close>.\<close>

datatype py_exception = PyExc (exc_class: string) (exc_str: pystr)

text \<open>Truthiness, as \<open>not data\<close> tests it. Both zeros of a float are false.\<close>

fun truthy :: "json \<Rightarrow> bool" where
  "truthy JNull = False"
| "truthy (JBool b) = b"
| "truthy (JInt i) = (i \<noteq> 0)"
| "truthy (JFloat w) = (w \<noteq> 0 \<and> w \<noteq> 0x8000000000000000)"
| "truthy (JStr s) = (s \<noteq> [])"
| "truthy (JList xs) = (xs \<noteq> [])"
| "truthy (JDict kvs) = (kvs \<noteq> [])"

fun type_name :: "json \<Rightarrow> string" where
  "type_name JNull = ''NoneType''"
| "type_name (JBool b) = ''bool''"
| "type_name (JInt i) = ''int''"
| "type_name (JFloat w) = ''float''"
| "type_name (JStr s) = ''str''"
| "type_name (JList xs) = ''list''"
| "type_name (JDict kvs) = ''dict''"

text \<open>
  \<open>key in data\<close> for a string key: key membership in a dict, element membership in a
  list, substring test in a string, and a \<open>TypeError\<close> for every other value.
\<close>

fun py_in :: "pystr \<Rightarrow> json \<Rightarrow> py_exception + bool" where
  "py_in k (JDict kvs) = Inr (map_of kvs k \<noteq> None)"
| "py_in k (JList xs) = Inr (List.member xs (JStr k))"
| "py_in k (JStr s) = Inr (str_contains k s)"
| "py_in k v =
     Inl (PyExc ''TypeError''
            (ascii (''argument of type '' @ [CHR 0x27] @ type_name v @ [CHR 0x27] @
                    '' is not iterable'')))"

text \<open>
  \<open>data[key]\<close> for a string key: the value bound in a dict (\<open>KeyError\<close> without one) and
  a \<open>TypeError\<close> for every other value.
\<close>

fun py_getitem :: "json \<Rightarrow> pystr \<Rightarrow> py_exception + json" where
  "py_getitem (JDict kvs) k =
     (case map_of kvs k of
        Some v \<Rightarrow> Inr v
      | None \<Rightarrow> Inl (PyExc ''KeyError'' ([39] @ k @ [39])))"
| "py_getitem (JList xs) k =
     Inl (PyExc ''TypeError'' (ascii ''list indices must be integers or slices, not str''))"
| "py_getitem (JStr s) k =
     Inl (PyExc ''TypeError'' (ascii ''string indices must be integers''))"
| "py_getitem v k =
     Inl (PyExc ''TypeError''
            (ascii ([CHR 0x27] @ type_name v @ [CHR 0x27] @ '' object is not subscriptable'')))"

section \<open>The world outside the module\<close>

text \<open>
  Every call that leaves the module is recorded, in order, in a trace: a log record (the
  level, the message template and the values formatted into it), an HTTP GET (the URL
  and the timeout in seconds), and the opening of a document by either parsing library.
\<close>

datatype level = INFO | WARNING | ERROR

datatype event =
    Log level string "json list"
  | RequestsGet json nat
  | PdfplumberOpen bytes
  | PdfReader bytes

text \<open>
  What \<open>requests.get\<close> returns: \<open>raise_for_status\<close> is the exception that method raises,
  if it raises one; \<open>headers_get\<close> is the case-insensitive lookup \<open>headers.get\<close>;
  \<open>content\<close> is the body.
\<close>

record http_response =
  raise_for_status :: "py_exception option"
  headers_get :: "pystr \<Rightarrow> pystr option"
  content :: bytes

text \<open>
  A page of a parsed document is what its \<open>extract_text()\<close> does: it raises, returns
  \<open>None\<close>, or returns a string.
\<close>

type_synonym page = "py_exception + pystr option"

text \<open>
  The libraries. \<open>requests_get\<close> may answer differently each time it is asked, so it
  reads the trace so far; it gets the URL (any JSON value the client sent) and the
  timeout. The two parsers either raise or give the pages of the document. \<open>str_lower\<close>
  is \<open>str.lower\<close>, whose Unicode case mapping is not reproduced here.
\<close>

record env =
  requests_get :: "event list \<Rightarrow> json \<Rightarrow> nat \<Rightarrow> py_exception + http_response"
  pdfplumber_open :: "bytes \<Rightarrow> py_exception + page list"
  pypdf2_reader :: "bytes \<Rightarrow> py_exception + page list"
  str_lower :: "pystr \<Rightarrow> pystr"

section \<open>The extractors\<close>

text \<open>
  The loop over the pages, the same in both extractors (lines 20-24 and 34-38):
  \<^verbatim>\<open>
      text = ""
      for page in pdf.pages:
          page_text = page.extract_text()
          if page_text:
              text += page_text + "\n"
  \<close>
  An exception raised by a page leaves the loop.
\<close>

fun extract_pages :: "pystr \<Rightarrow> page list \<Rightarrow> py_exception + pystr" where
  "extract_pages text [] = Inr text"
| "extract_pages text (page # pages) =
     (case page of
        Inl e \<Rightarrow> Inl e
      | Inr page_text \<Rightarrow>
          (case page_text of
             None \<Rightarrow> extract_pages text pages
           | Some s \<Rightarrow>
               if s \<noteq> [] then extract_pages (text @ s @ [10]) pages
               else extract_pages text pages))"

text \<open>\<open>extract_text_with_pdfplumber\<close> (lines 16-28): the stripped text, or \<open>None\<close> after
  an error record when anything raised.\<close>

definition extract_text_with_pdfplumber ::
  "env \<Rightarrow> bytes \<Rightarrow> event list \<Rightarrow> pystr option \<times> event list" where
  "extract_text_with_pdfplumber env pdf_bytes tr =
     (let tr1 = tr @ [PdfplumberOpen pdf_bytes] in
      case (case pdfplumber_open env pdf_bytes of
              Inl e \<Rightarrow> Inl e
            | Inr pages \<Rightarrow> extract_pages [] pages) of
        Inr text \<Rightarrow> (Some (strip text), tr1)
      | Inl e \<Rightarrow>
          (None, tr1 @ [Log ERROR ''pdfplumber extraction failed: {}'' [JStr (exc_str e)]]))"

text \<open>\<open>extract_text_with_pypdf2\<close> (lines 30-42).\<close>

definition extract_text_with_pypdf2 ::
  "env \<Rightarrow> bytes \<Rightarrow> event list \<Rightarrow> pystr option \<times> event list" where
  "extract_text_with_pypdf2 env pdf_bytes tr =
     (let tr1 = tr @ [PdfReader pdf_bytes] in
      case (case pypdf2_reader env pdf_bytes of
              Inl e \<Rightarrow> Inl e
            | Inr pages \<Rightarrow> extract_pages [] pages) of
        Inr text \<Rightarrow> (Some (strip text), tr1)
      | Inl e \<Rightarrow>
          (None, tr1 @ [Log ERROR ''PyPDF2 extraction failed: {}'' [JStr (exc_str e)]]))"

section \<open>The fetcher\<close>

text \<open>
  \<open>download_pdf\<close> (lines 44-58): one GET with \<open>timeout=30\<close>; an exception of the GET or
  of \<open>raise_for_status\<close> is logged and gives \<open>None\<close>; a content type without \<open>pdf\<close> is
  logged as a warning and the body is returned all the same.
\<close>

definition download_pdf :: "env \<Rightarrow> json \<Rightarrow> event list \<Rightarrow> bytes option \<times> event list" where
  "download_pdf env url tr =
     (let tr1 = tr @ [RequestsGet url 30] in
      case (case requests_get env tr url 30 of
              Inl e \<Rightarrow> Inl e
            | Inr response \<Rightarrow>
                (case raise_for_status response of
                   Some e \<Rightarrow> Inl e
                 | None \<Rightarrow> Inr response)) of
        Inl e \<Rightarrow> (None, tr1 @ [Log ERROR ''Failed to download PDF: {}'' [JStr (exc_str e)]])
      | Inr response \<Rightarrow>
          (let content_type =
                 str_lower env
                   (case headers_get response (ascii ''content-type'') of
                      None \<Rightarrow> []
                    | Some v \<Rightarrow> v)
           in (Some (content response),
               if \<not> str_contains (ascii ''pdf'') content_type
               then tr1 @ [Log WARNING ''Content type is {}, not PDF'' [JStr content_type]]
               else tr1)))"

section \<open>The endpoints\<close>

text \<open>What a view function returns: the JSON body and the HTTP status.\<close>

record flask_response =
  body :: json
  status :: nat

text \<open>The request, as far as the views read it: what \<open>request.get_json()\<close> does.\<close>

record request =
  get_json :: "py_exception + json"

text \<open>\<open>not data or key not in data\<close> (lines 75 and 125); the membership test can raise.\<close>

definition missing_key :: "pystr \<Rightarrow> json \<Rightarrow> py_exception + bool" where
  "missing_key k data =
     (if \<not> truthy data then Inr True
      else case py_in k data of Inl e \<Rightarrow> Inl e | Inr b \<Rightarrow> Inr (\<not> b))"

text \<open>
  \<open>not extracted_text or len(extracted_text.strip()) < 10\<close> (lines 95, 99, 155 and 158).
\<close>

definition insufficient :: "pystr option \<Rightarrow> bool" where
  "insufficient extracted_text \<longleftrightarrow>
     (case extracted_text of
        None \<Rightarrow> True
      | Some s \<Rightarrow> s = [] \<or> length (strip s) < 10)"

text \<open>
  Lines 91-111 of \<open>extract_pdf\<close>: the primary extractor, the fallback when the primary
  text is insufficient, and the response. \<open>extracted_length\<close> is
  \<open>len(extracted_text) if extracted_text else 0\<close>.
\<close>

definition extract_pdf_pipeline ::
  "env \<Rightarrow> json \<Rightarrow> bytes \<Rightarrow> event list \<Rightarrow> flask_response \<times> event list" where
  "extract_pdf_pipeline env pdf_url pdf_bytes tr =
     (let (extracted_text, tr1) = extract_text_with_pdfplumber env pdf_bytes tr;
          (extracted_text, tr2) =
            (if insufficient extracted_text
             then extract_text_with_pypdf2 env pdf_bytes
                    (tr1 @ [Log INFO ''Trying PyPDF2 as fallback'' []])
             else (extracted_text, tr1))
      in case extracted_text of
           None \<Rightarrow>
             (\<lparr>body = JDict
                 [(ascii ''error'', JStr (ascii ''Could not extract readable text from PDF'')),
                  (ascii ''url'', pdf_url),
                  (ascii ''extracted_length'', JInt 0)],
               status = 400\<rparr>, tr2)
         | Some s \<Rightarrow>
             if s = [] \<or> length (strip s) < 10
             then (\<lparr>body = JDict
                      [(ascii ''error'', JStr (ascii ''Could not extract readable text from PDF'')),
                       (ascii ''url'', pdf_url),
                       (ascii ''extracted_length'', JInt (if s \<noteq> [] then int (length s) else 0))],
                    status = 400\<rparr>, tr2)
             else (\<lparr>body = JDict
                      [(ascii ''success'', JBool True),
                       (ascii ''text'', JStr s),
                       (ascii ''length'', JInt (int (length s))),
                       (ascii ''url'', pdf_url)],
                    status = 200\<rparr>, tr2))"

text \<open>The body of the \<open>try\<close> of \<open>extract_pdf\<close> (lines 73-111); \<open>Inl\<close> is a raised exception.\<close>

definition extract_pdf_try ::
  "env \<Rightarrow> request \<Rightarrow> event list \<Rightarrow> (py_exception + flask_response) \<times> event list" where
  "extract_pdf_try env request tr =
     (case get_json request of
        Inl e \<Rightarrow> (Inl e, tr)
      | Inr data \<Rightarrow>
          (case missing_key (ascii ''url'') data of
             Inl e \<Rightarrow> (Inl e, tr)
           | Inr missing \<Rightarrow>
               if missing
               then (Inr \<lparr>body = JDict [(ascii ''error'', JStr (ascii ''Missing 'url' parameter''))],
                          status = 400\<rparr>, tr)
               else (case py_getitem data (ascii ''url'') of
                       Inl e \<Rightarrow> (Inl e, tr)
                     | Inr pdf_url \<Rightarrow>
                         (let tr1 = tr @ [Log INFO ''Processing PDF: {}'' [pdf_url]];
                              (pdf_bytes, tr2) = download_pdf env pdf_url tr1;
                              failed =
                                (Inr \<lparr>body = JDict
                                       [(ascii ''error'', JStr (ascii ''Failed to download PDF'')),
                                        (ascii ''url'', pdf_url)],
                                      status = 400\<rparr>, tr2)
                          in case pdf_bytes of
                               None \<Rightarrow> failed
                             | Some b \<Rightarrow>
                                 if b = [] then failed
                                 else (case extract_pdf_pipeline env pdf_url b tr2 of
                                         (response, tr3) \<Rightarrow> (Inr response, tr3))))))"

text \<open>\<open>extract_pdf\<close> (lines 69-117): the \<open>except Exception\<close> turns what was raised into a 500.\<close>

definition extract_pdf :: "env \<Rightarrow> request \<Rightarrow> event list \<Rightarrow> flask_response \<times> event list" where
  "extract_pdf env request tr =
     (case extract_pdf_try env request tr of
        (Inr response, tr1) \<Rightarrow> (response, tr1)
      | (Inl e, tr1) \<Rightarrow>
          (\<lparr>body = JDict
              [(ascii ''error'', JStr (ascii ''Internal server error: '' @ exc_str e))],
            status = 500\<rparr>,
           tr1 @ [Log ERROR ''Extraction error: {}'' [JStr (exc_str e)]]))"

text \<open>
  Lines 151-170 of \<open>extract_multiple_pdfs\<close>: the same two stages, and the entry appended
  to \<open>results\<close>.
\<close>

definition extract_multiple_pdfs_pipeline ::
  "env \<Rightarrow> json \<Rightarrow> bytes \<Rightarrow> event list \<Rightarrow> json \<times> event list" where
  "extract_multiple_pdfs_pipeline env url pdf_bytes tr =
     (let (extracted_text, tr1) = extract_text_with_pdfplumber env pdf_bytes tr;
          (extracted_text, tr2) =
            (if insufficient extracted_text
             then extract_text_with_pypdf2 env pdf_bytes tr1
             else (extracted_text, tr1));
          failed =
            JDict [(ascii ''url'', url),
                   (ascii ''success'', JBool False),
                   (ascii ''error'', JStr (ascii ''Could not extract readable text''))]
      in case extracted_text of
           None \<Rightarrow> (failed, tr2)
         | Some s \<Rightarrow>
             if s = [] \<or> length (strip s) < 10 then (failed, tr2)
             else (JDict [(ascii ''url'', url),
                          (ascii ''success'', JBool True),
                          (ascii ''text'', JStr s),
                          (ascii ''length'', JInt (int (length s)))], tr2))"

text \<open>
  One turn of the loop (lines 138-170) for the URL at index \<open>i\<close> of \<open>n\<close>: the entry it
  appends. The \<open>continue\<close> of line 149 ends the turn after a failed download.
\<close>

definition extract_multiple_pdfs_iteration ::
  "env \<Rightarrow> nat \<Rightarrow> nat \<Rightarrow> json \<Rightarrow> event list \<Rightarrow> json \<times> event list" where
  "extract_multiple_pdfs_iteration env i n url tr =
     (let tr1 = tr @ [Log INFO ''Processing PDF {}/{}: {}'' [JInt (int i + 1), JInt (int n), url]];
          (pdf_bytes, tr2) = download_pdf env url tr1;
          failed =
            (JDict [(ascii ''url'', url),
                    (ascii ''success'', JBool False),
                    (ascii ''error'', JStr (ascii ''Failed to download PDF''))], tr2)
      in case pdf_bytes of
           None \<Rightarrow> failed
         | Some b \<Rightarrow>
             if b = [] then failed
             else extract_multiple_pdfs_pipeline env url b tr2)"

text \<open>The loop: \<open>i\<close> is the index of the next URL, \<open>n\<close> is \<open>len(urls)\<close>.\<close>

fun extract_multiple_pdfs_loop ::
  "env \<Rightarrow> nat \<Rightarrow> nat \<Rightarrow> json list \<Rightarrow> json list \<Rightarrow> event list \<Rightarrow> json list \<times> event list" where
  "extract_multiple_pdfs_loop env i n [] results tr = (results, tr)"
| "extract_multiple_pdfs_loop env i n (url # urls) results tr =
     (case extract_multiple_pdfs_iteration env i n url tr of
        (entry, tr1) \<Rightarrow> extract_multiple_pdfs_loop env (Suc i) n urls (results @ [entry]) tr1)"

text \<open>
  The body of the \<open>try\<close> of \<open>extract_multiple_pdfs\<close> (lines 123-176);
  \<open>isinstance(urls, list)\<close> is the match on \<open>JList\<close>.
\<close>

definition extract_multiple_pdfs_try ::
  "env \<Rightarrow> request \<Rightarrow> event list \<Rightarrow> (py_exception + flask_response) \<times> event list" where
  "extract_multiple_pdfs_try env request tr =
     (case get_json request of
        Inl e \<Rightarrow> (Inl e, tr)
      | Inr data \<Rightarrow>
          (case missing_key (ascii ''urls'') data of
             Inl e \<Rightarrow> (Inl e, tr)
           | Inr missing \<Rightarrow>
               if missing
               then (Inr \<lparr>body = JDict
                            [(ascii ''error'',
                              JStr (ascii ''Missing 'urls' parameter (should be array)''))],
                          status = 400\<rparr>, tr)
               else (case py_getitem data (ascii ''urls'') of
                       Inl e \<Rightarrow> (Inl e, tr)
                     | Inr (JList urls) \<Rightarrow>
                         (case extract_multiple_pdfs_loop env 0 (length urls) urls [] tr of
                            (results, tr1) \<Rightarrow>
                              (Inr \<lparr>body = JDict
                                     [(ascii ''success'', JBool True),
                                      (ascii ''results'', JList results),
                                      (ascii ''total_processed'', JInt (int (length urls)))],
                                    status = 200\<rparr>, tr1))
                     | Inr _ \<Rightarrow>
                         (Inr \<lparr>body = JDict
                                [(ascii ''error'', JStr (ascii '''urls' should be an array''))],
                               status = 400\<rparr>, tr))))"

text \<open>\<open>extract_multiple_pdfs\<close> (lines 119-182).\<close>

definition extract_multiple_pdfs ::
  "env \<Rightarrow> request \<Rightarrow> event list \<Rightarrow> flask_response \<times> event list" where
  "extract_multiple_pdfs env request tr =
     (case extract_multiple_pdfs_try env request tr of
        (Inr response, tr1) \<Rightarrow> (response, tr1)
      | (Inl e, tr1) \<Rightarrow>
          (\<lparr>body = JDict
              [(ascii ''error'', JStr (ascii ''Internal server error: '' @ exc_str e))],
            status = 500\<rparr>,
           tr1 @ [Log ERROR ''Multiple extraction error: {}'' [JStr (exc_str e)]]))"

section \<open>What the specification says of an extractor\<close>

text \<open>The texts of the pages that yield non-empty text, in page order.\<close>

definition page_texts :: "page list \<Rightarrow> pystr list" where
  "page_texts pages = [s. Inr (Some s) \<leftarrow> pages, s \<noteq> []]"

text \<open>Texts joined with a newline between neighbours.\<close>

fun join_newline :: "pystr list \<Rightarrow> pystr" where
  "join_newline [] = []"
| "join_newline [s] = s"
| "join_newline (s # t # ts) = s @ [10] @ join_newline (t # ts)"

text \<open>
  The specification of either extractor, given what the parsing library does with the
  buffer: no result when opening the document or any page raises, and otherwise the
  joined page texts, trimmed.
\<close>

definition spec_extractor :: "py_exception + page list \<Rightarrow> pystr option" where
  "spec_extractor parsed =
     (case parsed of
        Inl e \<Rightarrow> None
      | Inr pages \<Rightarrow>
          if list_ex isl pages then None
          else Some (strip (join_newline (page_texts pages))))"

section \<open>Vocabulary of the claims\<close>

text \<open>\<open>d.get(k)\<close> on a JSON object; \<open>None\<close> on every other value.\<close>

fun json_get :: "json \<Rightarrow> pystr \<Rightarrow> json option" where
  "json_get (JDict kvs) k = map_of kvs k"
| "json_get v k = None"

text \<open>What each extractor yields for a buffer (the trace does not influence it).\<close>

definition primary_text :: "env \<Rightarrow> bytes \<Rightarrow> pystr option" where
  "primary_text env b = fst (extract_text_with_pdfplumber env b [])"

definition fallback_text :: "env \<Rightarrow> bytes \<Rightarrow> pystr option" where
  "fallback_text env b = fst (extract_text_with_pypdf2 env b [])"

text \<open>The buffers handed to each extractor and the GETs issued, read off a trace.\<close>

definition primary_calls :: "event list \<Rightarrow> bytes list" where
  "primary_calls tr = [b. PdfplumberOpen b \<leftarrow> tr]"

definition fallback_calls :: "event list \<Rightarrow> bytes list" where
  "fallback_calls tr = [b. PdfReader b \<leftarrow> tr]"

definition downloads :: "event list \<Rightarrow> (json \<times> nat) list" where
  "downloads tr = [(u, t). RequestsGet u t \<leftarrow> tr]"

text \<open>The response bodies and batch entries of the source, by name.\<close>

definition success_response :: "json \<Rightarrow> pystr \<Rightarrow> flask_response" where
  "success_response url s =
     \<lparr>body = JDict [(ascii ''success'', JBool True),
                     (ascii ''text'', JStr s),
                     (ascii ''length'', JInt (int (length s))),
                     (ascii ''url'', url)],
      status = 200\<rparr>"

definition unreadable_response :: "json \<Rightarrow> int \<Rightarrow> flask_response" where
  "unreadable_response url n =
     \<lparr>body = JDict [(ascii ''error'', JStr (ascii ''Could not extract readable text from PDF'')),
                     (ascii ''url'', url),
                     (ascii ''extracted_length'', JInt n)],
      status = 400\<rparr>"

definition download_failed_response :: "json \<Rightarrow> flask_response" where
  "download_failed_response url =
     \<lparr>body = JDict [(ascii ''error'', JStr (ascii ''Failed to download PDF'')),
                     (ascii ''url'', url)],
      status = 400\<rparr>"

definition success_entry :: "json \<Rightarrow> pystr \<Rightarrow> json" where
  "success_entry url s =
     JDict [(ascii ''url'', url),
            (ascii ''success'', JBool True),
            (ascii ''text'', JStr s),
            (ascii ''length'', JInt (int (length s)))]"

definition unreadable_entry :: "json \<Rightarrow> json" where
  "unreadable_entry url =
     JDict [(ascii ''url'', url),
            (ascii ''success'', JBool False),
            (ascii ''error'', JStr (ascii ''Could not extract readable text''))]"

definition download_failed_entry :: "json \<Rightarrow> json" where
  "download_failed_entry url =
     JDict [(ascii ''url'', url),
            (ascii ''success'', JBool False),
            (ascii ''error'', JStr (ascii ''Failed to download PDF''))]"

text \<open>
  The text the orchestrator judges: the fallback text when the primary text is
  insufficient, the primary text otherwise.
\<close>

definition final_text :: "env \<Rightarrow> bytes \<Rightarrow> pystr option" where
  "final_text env b =
     (if insufficient (primary_text env b) then fallback_text env b else primary_text env b)"

definition internal_error_response :: "py_exception \<Rightarrow> flask_response" where
  "internal_error_response e =
     \<lparr>body = JDict [(ascii ''error'', JStr (ascii ''Internal server error: '' @ exc_str e))],
      status = 500\<rparr>"

definition bad_request_response :: "string \<Rightarrow> flask_response" where
  "bad_request_response msg =
     \<lparr>body = JDict [(ascii ''error'', JStr (ascii msg))], status = 400\<rparr>"

text \<open>The content type \<open>download_pdf\<close> inspects: the header, or \<open>''\<close>, in lower case.\<close>

definition content_type_of :: "env \<Rightarrow> http_response \<Rightarrow> pystr" where
  "content_type_of env response =
     str_lower env
       (case headers_get response (ascii ''content-type'') of None \<Rightarrow> [] | Some v \<Rightarrow> v)"

text \<open>\<open>isinstance(urls, list)\<close>.\<close>

fun is_list :: "json \<Rightarrow> bool" where
  "is_list (JList xs) = True"
| "is_list v = False"

section \<open>Sample environments\<close>

text \<open>\<open>str.lower\<close> on ASCII text.\<close>

definition ascii_lower :: "pystr \<Rightarrow> pystr" where
  "ascii_lower s = map (\<lambda>c. if 65 \<le> c \<and> c \<le> 90 then c + 32 else c) s"

text \<open>A response with a success status, the given content type and the given body.\<close>

definition sample_response :: "pystr option \<Rightarrow> bytes \<Rightarrow> http_response" where
  "sample_response content_type b =
     \<lparr>raise_for_status = None,
      headers_get = (\<lambda>k. if k = ascii ''content-type'' then content_type else None),
      content = b\<rparr>"

text \<open>
  An environment in which every GET has the same outcome and each parser treats every
  buffer alike.
\<close>

definition sample_env ::
  "py_exception + http_response \<Rightarrow> py_exception + page list \<Rightarrow> py_exception + page list \<Rightarrow> env" where
  "sample_env got primary fallback =
     \<lparr>requests_get = (\<lambda>tr url timeout. got),
      pdfplumber_open = (\<lambda>b. primary),
      pypdf2_reader = (\<lambda>b. fallback),
      str_lower = ascii_lower\<rparr>"

text \<open>Sample data: a buffer, a URL, two exceptions, and requests carrying one key.\<close>

definition sample_pdf :: bytes where
  "sample_pdf = [37, 80, 68, 70]"

definition sample_url :: json where
  "sample_url = JStr (ascii ''http://example.com/a.pdf'')"

definition timeout_exc :: py_exception where
  "timeout_exc = PyExc ''ReadTimeout'' (ascii ''Read timed out.'')"

definition parse_exc :: py_exception where
  "parse_exc = PyExc ''PdfReadError'' (ascii ''EOF marker not found'')"

definition url_request :: "json \<Rightarrow> request" where
  "url_request u = \<lparr>get_json = Inr (JDict [(ascii ''url'', u)])\<rparr>"

definition urls_request :: "json \<Rightarrow> request" where
  "urls_request us = \<lparr>get_json = Inr (JDict [(ascii ''urls'', us)])\<rparr>"

text \<open>A document of one page with the given text.\<close>

definition one_page :: "string \<Rightarrow> py_exception + page list" where
  "one_page s = Inr [Inr (Some (ascii s))]"

text \<open>What Flask raises from \<open>get_json()\<close> for a body that is not JSON.\<close>

definition bad_json_exc :: py_exception where
  "bad_json_exc =
     PyExc ''BadRequest''
       (ascii ''400 Bad Request: The browser (or proxy) sent a request that this server could not understand.'')"

text \<open>A server that answers every GET with a PDF content type and the sample buffer.\<close>

definition pdf_served :: "py_exception + http_response" where
  "pdf_served = Inr (sample_response (Some (ascii ''application/pdf'')) sample_pdf)"

section \<open>Properties\<close>

subsection \<open>Trimming and the page loop\<close>

lemma isspace_newline: "isspace 10"
  by (simp add: isspace_def)

lemma strip_append_space:
  assumes "isspace c"
  shows "strip (s @ [c]) = strip s"
proof (cases "\<forall>x\<in>set s. isspace x")
  case True
  have a: "dropWhile isspace s = []" using True by simp
  have b: "dropWhile isspace (s @ [c]) = []" using True assms by simp
  show ?thesis unfolding strip_def a b by simp
next
  case False
  then obtain x where "x \<in> set s" "\<not> isspace x" by blast
  then have "dropWhile isspace (s @ [c]) = dropWhile isspace s @ [c]"
    by (rule dropWhile_append1)
  then show ?thesis using assms by (simp add: strip_def)
qed

lemma dropWhile_rev_fixed:
  assumes "dropWhile P xs = xs"
  shows "dropWhile P (rev (dropWhile P (rev xs))) = rev (dropWhile P (rev xs))"
proof (cases "dropWhile P (rev xs) = []")
  case True
  show ?thesis unfolding True by simp
next
  case False
  have "rev xs = takeWhile P (rev xs) @ dropWhile P (rev xs)" by simp
  then have "xs = rev (dropWhile P (rev xs)) @ rev (takeWhile P (rev xs))"
    by (metis rev_append rev_rev_ident)
  then have hd_eq: "hd (rev (dropWhile P (rev xs))) = hd xs"
    using False by (metis hd_append2 rev_is_Nil_conv)
  have "xs \<noteq> []" using False by auto
  then have "\<not> P (hd xs)" using assms hd_dropWhile[of P xs] by simp
  then show ?thesis using hd_eq False
    by (cases "rev (dropWhile P (rev xs))") auto
qed

lemma strip_idem: "strip (strip s) = strip s"
  using dropWhile_rev_fixed[of isspace "dropWhile isspace s"]
  by (simp add: strip_def)

lemma page_texts_Nil: "page_texts [] = []"
  by (simp add: page_texts_def)

lemma page_texts_Cons:
  "page_texts (p # ps) =
     (case p of
        Inl e \<Rightarrow> page_texts ps
      | Inr None \<Rightarrow> page_texts ps
      | Inr (Some s) \<Rightarrow> (if s \<noteq> [] then s # page_texts ps else page_texts ps))"
  by (simp add: page_texts_def split: sum.splits option.splits)

lemma extract_pages_ok:
  "\<not> list_ex isl pages \<Longrightarrow>
   extract_pages acc pages = Inr (acc @ concat (map (\<lambda>s. s @ [10]) (page_texts pages)))"
  by (induction pages arbitrary: acc) (auto simp: page_texts_Nil page_texts_Cons split: sum.splits option.splits)

lemma extract_pages_raises:
  "list_ex isl pages \<Longrightarrow> \<exists>e. extract_pages acc pages = Inl e"
  by (induction pages arbitrary: acc) (auto split: sum.splits option.splits)

lemma concat_newline:
  "concat (map (\<lambda>s. s @ [10]) ts) = (if ts = [] then [] else join_newline ts @ [10])"
  by (induction ts rule: join_newline.induct) auto

lemma strip_concat_newline:
  "strip (concat (map (\<lambda>s. s @ [10]) ts)) = strip (join_newline ts)"
  by (simp add: concat_newline strip_append_space isspace_newline)

lemma extract_pages_spec:
  "(case (case parsed of Inl e \<Rightarrow> Inl e | Inr pages \<Rightarrow> extract_pages [] pages) of
      Inr t \<Rightarrow> Some (strip t) | Inl e \<Rightarrow> None) = spec_extractor parsed"
proof (cases parsed)
  case (Inl e)
  then show ?thesis by (simp add: spec_extractor_def)
next
  case (Inr pages)
  show ?thesis
  proof (cases "list_ex isl pages")
    case True
    from extract_pages_raises[OF this, of "[]"] obtain e where "extract_pages [] pages = Inl e" ..
    then show ?thesis using Inr True by (simp add: spec_extractor_def)
  next
    case False
    from extract_pages_ok[OF this, of "[]"] show ?thesis
      using Inr False by (simp add: spec_extractor_def strip_concat_newline)
  qed
qed

lemma pdfplumber_result:
  "fst (extract_text_with_pdfplumber env b tr) = spec_extractor (pdfplumber_open env b)"
  unfolding extract_pages_spec[symmetric]
  by (simp add: extract_text_with_pdfplumber_def Let_def split: sum.splits)

lemma pypdf2_result:
  "fst (extract_text_with_pypdf2 env b tr) = spec_extractor (pypdf2_reader env b)"
  unfolding extract_pages_spec[symmetric]
  by (simp add: extract_text_with_pypdf2_def Let_def split: sum.splits)

lemma pdfplumber_trace:
  "\<exists>t e. extract_text_with_pdfplumber env b tr = (Some (strip t), tr @ [PdfplumberOpen b]) \<or>
     extract_text_with_pdfplumber env b tr =
       (None, tr @ [PdfplumberOpen b,
                    Log ERROR ''pdfplumber extraction failed: {}'' [JStr (exc_str e)]])"
  by (auto simp add: extract_text_with_pdfplumber_def Let_def split: sum.splits)

lemma pypdf2_trace:
  "\<exists>t e. extract_text_with_pypdf2 env b tr = (Some (strip t), tr @ [PdfReader b]) \<or>
     extract_text_with_pypdf2 env b tr =
       (None, tr @ [PdfReader b,
                    Log ERROR ''PyPDF2 extraction failed: {}'' [JStr (exc_str e)]])"
  by (auto simp add: extract_text_with_pypdf2_def Let_def split: sum.splits)

subsection \<open>C7: what an extractor returns\<close>

text \<open>
  Claim C7. For every byte buffer, each extractor returns what the specification says: the
  texts of exactly the pages that yield non-empty text, joined by newlines and trimmed;
  when opening the document or a page raises, the result is \<open>None\<close>, the exception is
  logged at error level and nothing is raised to the caller. The trace grows by the
  library call, and by the error record in the failing case only.
\<close>

theorem extractors_join_page_texts:
  "fst (extract_text_with_pdfplumber env b tr) = spec_extractor (pdfplumber_open env b) \<and>
   fst (extract_text_with_pypdf2 env b tr) = spec_extractor (pypdf2_reader env b) \<and>
   (\<exists>e. snd (extract_text_with_pdfplumber env b tr) =
      (if spec_extractor (pdfplumber_open env b) = None
       then tr @ [PdfplumberOpen b,
                  Log ERROR ''pdfplumber extraction failed: {}'' [JStr (exc_str e)]]
       else tr @ [PdfplumberOpen b])) \<and>
   (\<exists>e. snd (extract_text_with_pypdf2 env b tr) =
      (if spec_extractor (pypdf2_reader env b) = None
       then tr @ [PdfReader b, Log ERROR ''PyPDF2 extraction failed: {}'' [JStr (exc_str e)]]
       else tr @ [PdfReader b]))"
proof -
  have 1: "\<exists>e. snd (extract_text_with_pdfplumber env b tr) =
      (if spec_extractor (pdfplumber_open env b) = None
       then tr @ [PdfplumberOpen b,
                  Log ERROR ''pdfplumber extraction failed: {}'' [JStr (exc_str e)]]
       else tr @ [PdfplumberOpen b])"
    using pdfplumber_trace[of env b tr] pdfplumber_result[of env b tr] by (metis fst_conv snd_conv option.distinct(1))
  have 2: "\<exists>e. snd (extract_text_with_pypdf2 env b tr) =
      (if spec_extractor (pypdf2_reader env b) = None
       then tr @ [PdfReader b, Log ERROR ''PyPDF2 extraction failed: {}'' [JStr (exc_str e)]]
       else tr @ [PdfReader b])"
    using pypdf2_trace[of env b tr] pypdf2_result[of env b tr] by (metis fst_conv snd_conv option.distinct(1))
  show ?thesis using 1 2 pdfplumber_result pypdf2_result by blast
qed

theorem extractors_join_page_texts_witness:
  "\<not> list_ex isl [Inr (Some [97, 98]), Inr None, Inr (Some []), Inr (Some [99, 100, 32])] \<and>
   fst (extract_text_with_pdfplumber
          (sample_env (Inl (PyExc ''Timeout'' []))
             (Inr [Inr (Some [97, 98]), Inr None, Inr (Some []), Inr (Some [99, 100, 32])])
             (Inl (PyExc ''PdfReadError'' (ascii ''EOF marker not found''))))
          [37, 80, 68, 70] []) = Some [97, 98, 10, 99, 100] \<and>
   fst (extract_text_with_pypdf2
          (sample_env (Inl (PyExc ''Timeout'' []))
             (Inr [Inr (Some [97, 98]), Inr None, Inr (Some []), Inr (Some [99, 100, 32])])
             (Inl (PyExc ''PdfReadError'' (ascii ''EOF marker not found''))))
          [37, 80, 68, 70] []) = None"
  using extractors_join_page_texts
          [of "sample_env (Inl (PyExc ''Timeout'' []))
                 (Inr [Inr (Some [97, 98]), Inr None, Inr (Some []), Inr (Some [99, 100, 32])])
                 (Inl (PyExc ''PdfReadError'' (ascii ''EOF marker not found'')))"
              "[37, 80, 68, 70]" "[]"]
  by (simp add: spec_extractor_def sample_env_def page_texts_def strip_def isspace_def)

subsection \<open>The extractors and the two extraction stages\<close>

lemma primary_text_eq: "fst (extract_text_with_pdfplumber env b tr) = primary_text env b"
  by (simp add: primary_text_def pdfplumber_result)

lemma fallback_text_eq: "fst (extract_text_with_pypdf2 env b tr) = fallback_text env b"
  by (simp add: fallback_text_def pypdf2_result)

lemma primary_text_stripped: "primary_text env b = Some t \<Longrightarrow> strip t = t"
  using pdfplumber_trace[of env b "[]"] by (auto simp: primary_text_def strip_idem)

lemma fallback_text_stripped: "fallback_text env b = Some t \<Longrightarrow> strip t = t"
  using pypdf2_trace[of env b "[]"] by (auto simp: fallback_text_def strip_idem)

lemma calls_append:
  "primary_calls (xs @ ys) = primary_calls xs @ primary_calls ys"
  "fallback_calls (xs @ ys) = fallback_calls xs @ fallback_calls ys"
  "downloads (xs @ ys) = downloads xs @ downloads ys"
  by (simp_all add: primary_calls_def fallback_calls_def downloads_def)

lemma calls_simps:
  "primary_calls [] = []" "fallback_calls [] = []" "downloads [] = []"
  "primary_calls (Log l m vs # tr) = primary_calls tr"
  "fallback_calls (Log l m vs # tr) = fallback_calls tr"
  "downloads (Log l m vs # tr) = downloads tr"
  "primary_calls (PdfplumberOpen b # tr) = b # primary_calls tr"
  "fallback_calls (PdfplumberOpen b # tr) = fallback_calls tr"
  "downloads (PdfplumberOpen b # tr) = downloads tr"
  "primary_calls (PdfReader b # tr) = primary_calls tr"
  "fallback_calls (PdfReader b # tr) = b # fallback_calls tr"
  "downloads (PdfReader b # tr) = downloads tr"
  "primary_calls (RequestsGet u t # tr) = primary_calls tr"
  "fallback_calls (RequestsGet u t # tr) = fallback_calls tr"
  "downloads (RequestsGet u t # tr) = (u, t) # downloads tr"
  by (simp_all add: primary_calls_def fallback_calls_def downloads_def)

lemma pdfplumber_calls:
  "primary_calls (snd (extract_text_with_pdfplumber env b tr)) = primary_calls tr @ [b]"
  "fallback_calls (snd (extract_text_with_pdfplumber env b tr)) = fallback_calls tr"
  "downloads (snd (extract_text_with_pdfplumber env b tr)) = downloads tr"
  using pdfplumber_trace[of env b tr] by (auto simp: calls_append calls_simps)

lemma pypdf2_calls:
  "primary_calls (snd (extract_text_with_pypdf2 env b tr)) = primary_calls tr"
  "fallback_calls (snd (extract_text_with_pypdf2 env b tr)) = fallback_calls tr @ [b]"
  "downloads (snd (extract_text_with_pypdf2 env b tr)) = downloads tr"
  using pypdf2_trace[of env b tr] by (auto simp: calls_append calls_simps)

lemma pdfplumber_some_trace:
  "primary_text env b = Some t \<Longrightarrow>
   extract_text_with_pdfplumber env b tr = (Some t, tr @ [PdfplumberOpen b])"
  using pdfplumber_trace[of env b tr] primary_text_eq[of env b tr] by auto

text \<open>The two pipelines, in terms of what the extractors yield.\<close>

lemma extract_pdf_pipeline_primary:
  assumes "primary_text env b = Some t" "10 \<le> length (strip t)"
  shows "extract_pdf_pipeline env u b tr = (success_response u t, tr @ [PdfplumberOpen b])"
proof -
  have "t \<noteq> []" using assms(2) by (auto simp: strip_def)
  then show ?thesis using assms
    by (simp add: extract_pdf_pipeline_def pdfplumber_some_trace insufficient_def
        success_response_def)
qed

lemma extract_multiple_pdfs_pipeline_primary:
  assumes "primary_text env b = Some t" "10 \<le> length (strip t)"
  shows "extract_multiple_pdfs_pipeline env u b tr = (success_entry u t, tr @ [PdfplumberOpen b])"
proof -
  have "t \<noteq> []" using assms(2) by (auto simp: strip_def)
  then show ?thesis using assms
    by (simp add: extract_multiple_pdfs_pipeline_def pdfplumber_some_trace insufficient_def
        success_entry_def Let_def)
qed

lemma extract_pdf_pipeline_fallback:
  assumes "insufficient (primary_text env b)"
  shows "fst (extract_pdf_pipeline env u b tr) =
           (case fallback_text env b of
              None \<Rightarrow> unreadable_response u 0
            | Some s \<Rightarrow>
                if insufficient (Some s) then unreadable_response u (int (length s))
                else success_response u s)"
    and "snd (extract_pdf_pipeline env u b tr) =
           snd (extract_text_with_pypdf2 env b
                  (snd (extract_text_with_pdfplumber env b tr) @
                   [Log INFO ''Trying PyPDF2 as fallback'' []]))"
  using assms primary_text_eq[of env b tr]
    fallback_text_eq[of env b "snd (extract_text_with_pdfplumber env b tr) @
                   [Log INFO ''Trying PyPDF2 as fallback'' []]"]
  by (auto simp add: extract_pdf_pipeline_def insufficient_def success_response_def
      unreadable_response_def split: prod.splits option.splits)

lemma extract_multiple_pdfs_pipeline_fallback:
  assumes "insufficient (primary_text env b)"
  shows "fst (extract_multiple_pdfs_pipeline env u b tr) =
           (case fallback_text env b of
              None \<Rightarrow> unreadable_entry u
            | Some s \<Rightarrow>
                if insufficient (Some s) then unreadable_entry u
                else success_entry u s)"
    and "snd (extract_multiple_pdfs_pipeline env u b tr) =
           snd (extract_text_with_pypdf2 env b (snd (extract_text_with_pdfplumber env b tr)))"
  using assms primary_text_eq[of env b tr]
    fallback_text_eq[of env b "snd (extract_text_with_pdfplumber env b tr)"]
  by (auto simp add: extract_multiple_pdfs_pipeline_def insufficient_def success_entry_def
      unreadable_entry_def Let_def split: prod.splits option.splits)

lemma insufficient_Some: "insufficient (Some s) \<longleftrightarrow> length (strip s) < 10"
  by (auto simp: insufficient_def strip_def)

lemma extract_pdf_pipeline_final:
  "fst (extract_pdf_pipeline env u b tr) =
     (case final_text env b of
        None \<Rightarrow> unreadable_response u 0
      | Some s \<Rightarrow>
          if length (strip s) < 10 then unreadable_response u (int (length s))
          else success_response u s)"
proof (cases "insufficient (primary_text env b)")
  case True
  then show ?thesis
    by (simp add: extract_pdf_pipeline_fallback(1) final_text_def insufficient_Some
        split: option.splits)
next
  case False
  then obtain t where t: "primary_text env b = Some t" "10 \<le> length (strip t)"
    by (cases "primary_text env b") (auto simp: insufficient_Some insufficient_def)
  then show ?thesis using False
    by (simp add: extract_pdf_pipeline_primary final_text_def)
qed

lemma extract_multiple_pdfs_pipeline_final:
  "fst (extract_multiple_pdfs_pipeline env u b tr) =
     (case final_text env b of
        None \<Rightarrow> unreadable_entry u
      | Some s \<Rightarrow>
          if length (strip s) < 10 then unreadable_entry u
          else success_entry u s)"
proof (cases "insufficient (primary_text env b)")
  case True
  then show ?thesis
    by (simp add: extract_multiple_pdfs_pipeline_fallback(1) final_text_def insufficient_Some
        split: option.splits)
next
  case False
  then obtain t where t: "primary_text env b = Some t" "10 \<le> length (strip t)"
    by (cases "primary_text env b") (auto simp: insufficient_Some insufficient_def)
  then show ?thesis using False
    by (simp add: extract_multiple_pdfs_pipeline_primary final_text_def)
qed

lemma final_text_stripped: "final_text env b = Some s \<Longrightarrow> strip s = s"
  by (auto simp: final_text_def primary_text_stripped fallback_text_stripped split: if_splits)

lemma extract_pdf_pipeline_calls:
  "primary_calls (snd (extract_pdf_pipeline env u b tr)) = primary_calls tr @ [b] \<and>
   fallback_calls (snd (extract_pdf_pipeline env u b tr)) =
     fallback_calls tr @ (if insufficient (primary_text env b) then [b] else []) \<and>
   downloads (snd (extract_pdf_pipeline env u b tr)) = downloads tr"
proof (cases "insufficient (primary_text env b)")
  case True
  then show ?thesis
    by (simp add: extract_pdf_pipeline_fallback(2) pypdf2_calls calls_append calls_simps
        pdfplumber_calls)
next
  case False
  then obtain t where t: "primary_text env b = Some t" "10 \<le> length (strip t)"
    by (cases "primary_text env b") (auto simp: insufficient_Some insufficient_def)
  then show ?thesis using False
    by (simp add: extract_pdf_pipeline_primary calls_append calls_simps)
qed

lemma extract_multiple_pdfs_pipeline_calls:
  "primary_calls (snd (extract_multiple_pdfs_pipeline env u b tr)) = primary_calls tr @ [b] \<and>
   fallback_calls (snd (extract_multiple_pdfs_pipeline env u b tr)) =
     fallback_calls tr @ (if insufficient (primary_text env b) then [b] else []) \<and>
   downloads (snd (extract_multiple_pdfs_pipeline env u b tr)) = downloads tr"
proof (cases "insufficient (primary_text env b)")
  case True
  then show ?thesis
    by (simp add: extract_multiple_pdfs_pipeline_fallback(2) pypdf2_calls calls_append
        calls_simps pdfplumber_calls)
next
  case False
  then obtain t where t: "primary_text env b = Some t" "10 \<le> length (strip t)"
    by (cases "primary_text env b") (auto simp: insufficient_Some insufficient_def)
  then show ?thesis using False
    by (simp add: extract_multiple_pdfs_pipeline_primary calls_append calls_simps)
qed

lemma download_pdf_failed:
  assumes "requests_get env tr url 30 = Inl e \<or>
           (\<exists>r. requests_get env tr url 30 = Inr r \<and> raise_for_status r = Some e)"
  shows "download_pdf env url tr =
           (None, tr @ [RequestsGet url 30,
                        Log ERROR ''Failed to download PDF: {}'' [JStr (exc_str e)]])"
  using assms by (auto simp: download_pdf_def)

lemma download_pdf_ok:
  assumes "requests_get env tr url 30 = Inr r" "raise_for_status r = None"
  shows "download_pdf env url tr =
           (Some (content r),
            tr @ [RequestsGet url 30] @
            (if \<not> str_contains (ascii ''pdf'') (content_type_of env r)
             then [Log WARNING ''Content type is {}, not PDF'' [JStr (content_type_of env r)]]
             else []))"
  using assms by (simp add: download_pdf_def content_type_of_def Let_def)

lemma download_pdf_calls:
  "downloads (snd (download_pdf env url tr)) = downloads tr @ [(url, 30)]"
  "primary_calls (snd (download_pdf env url tr)) = primary_calls tr"
  "fallback_calls (snd (download_pdf env url tr)) = fallback_calls tr"
  by (simp_all add: download_pdf_def Let_def calls_append calls_simps
      split: sum.splits option.splits)

lemma missing_key_dict:
  "missing_key k (JDict kvs) = Inr (map_of kvs k = None)"
  by (cases kvs) (auto simp: missing_key_def)

lemma extract_pdf_with_url:
  assumes "get_json request = Inr (JDict kvs)" "map_of kvs (ascii ''url'') = Some u"
  shows "extract_pdf env request tr =
           (case download_pdf env u (tr @ [Log INFO ''Processing PDF: {}'' [u]]) of
              (None, tr2) \<Rightarrow> (download_failed_response u, tr2)
            | (Some b, tr2) \<Rightarrow>
                if b = [] then (download_failed_response u, tr2)
                else extract_pdf_pipeline env u b tr2)"
  using assms
  by (simp add: extract_pdf_def extract_pdf_try_def missing_key_dict download_failed_response_def
      Let_def split: prod.splits option.splits)

lemma iteration_unfold:
  "extract_multiple_pdfs_iteration env i n u tr =
     (case download_pdf env u
             (tr @ [Log INFO ''Processing PDF {}/{}: {}'' [JInt (int i + 1), JInt (int n), u]]) of
        (None, tr2) \<Rightarrow> (download_failed_entry u, tr2)
      | (Some b, tr2) \<Rightarrow>
          if b = [] then (download_failed_entry u, tr2)
          else extract_multiple_pdfs_pipeline env u b tr2)"
  by (simp add: extract_multiple_pdfs_iteration_def download_failed_entry_def Let_def
      split: prod.splits option.splits)

subsection \<open>The sample environments\<close>

lemma sample_primary_text:
  "primary_text (sample_env got (one_page s) fb) b = Some (strip (ascii s))"
  by (simp add: primary_text_def pdfplumber_result spec_extractor_def sample_env_def one_page_def
      page_texts_def strip_append_space isspace_newline split: if_splits)

lemma sample_fallback_text:
  "fallback_text (sample_env got pr (one_page s)) b = Some (strip (ascii s))"
  by (simp add: fallback_text_def pypdf2_result spec_extractor_def sample_env_def one_page_def
      page_texts_def strip_append_space isspace_newline split: if_splits)

lemma sample_primary_raises:
  "primary_text (sample_env got (Inl e) fb) b = None"
  by (simp add: primary_text_def pdfplumber_result spec_extractor_def sample_env_def)

lemma sample_fallback_raises:
  "fallback_text (sample_env got pr (Inl e)) b = None"
  by (simp add: fallback_text_def pypdf2_result spec_extractor_def sample_env_def)

lemma sample_download:
  "download_pdf (sample_env (Inr (sample_response ct bs)) pr fb) u tr =
     (Some bs,
      tr @ [RequestsGet u 30] @
      (if \<not> str_contains (ascii ''pdf'') (ascii_lower (case ct of None \<Rightarrow> [] | Some v \<Rightarrow> v))
       then [Log WARNING ''Content type is {}, not PDF''
               [JStr (ascii_lower (case ct of None \<Rightarrow> [] | Some v \<Rightarrow> v))]]
       else []))"
  by (simp add: download_pdf_def sample_env_def sample_response_def Let_def)

subsection \<open>The batch loop\<close>

lemma loop_append:
  "extract_multiple_pdfs_loop env i n (xs @ ys) results tr =
     (case extract_multiple_pdfs_loop env i n xs results tr of
        (r, t) \<Rightarrow> extract_multiple_pdfs_loop env (i + length xs) n ys r t)"
  by (induction xs arbitrary: i results tr) (auto split: prod.splits)

lemma loop_results:
  "\<exists>new. fst (extract_multiple_pdfs_loop env i n urls results tr) = results @ new \<and>
         length new = length urls"
proof (induction urls arbitrary: i results tr)
  case Nil
  then show ?case by simp
next
  case (Cons u urls)
  obtain entry tr1 where it: "extract_multiple_pdfs_iteration env i n u tr = (entry, tr1)"
    by (cases "extract_multiple_pdfs_iteration env i n u tr")
  from Cons[of "Suc i" "results @ [entry]" tr1] obtain new where
    "fst (extract_multiple_pdfs_loop env (Suc i) n urls (results @ [entry]) tr1) =
       (results @ [entry]) @ new" "length new = length urls" by blast
  then show ?case using it by (intro exI[of _ "entry # new"]) simp
qed

lemma loop_length:
  "length (fst (extract_multiple_pdfs_loop env i n urls results tr)) =
     length results + length urls"
  using loop_results[of env i n urls results tr] by auto

lemma loop_prefix:
  "j < length results \<Longrightarrow>
   fst (extract_multiple_pdfs_loop env i n urls results tr) ! j = results ! j"
  using loop_results[of env i n urls results tr] by (auto simp: nth_append)

lemma loop_nth:
  assumes "j < length urls"
  shows "fst (extract_multiple_pdfs_loop env 0 n urls [] tr) ! j =
           fst (extract_multiple_pdfs_iteration env j n (urls ! j)
                  (snd (extract_multiple_pdfs_loop env 0 n (take j urls) [] tr)))"
proof -
  have split: "urls = take j urls @ (urls ! j) # drop (Suc j) urls"
    using assms by (simp add: id_take_nth_drop)
  obtain r t where rt: "extract_multiple_pdfs_loop env 0 n (take j urls) [] tr = (r, t)"
    by (cases "extract_multiple_pdfs_loop env 0 n (take j urls) [] tr")
  have lr: "length r = j"
    using loop_length[of env 0 n "take j urls" "[]" tr] rt assms by simp
  obtain entry t1 where it: "extract_multiple_pdfs_iteration env j n (urls ! j) t = (entry, t1)"
    by (cases "extract_multiple_pdfs_iteration env j n (urls ! j) t")
  have "extract_multiple_pdfs_loop env 0 n urls [] tr =
          extract_multiple_pdfs_loop env (Suc j) n (drop (Suc j) urls) (r @ [entry]) t1"
    using assms rt it
    by (subst split, subst loop_append) (simp add: min_def)
  then have "fst (extract_multiple_pdfs_loop env 0 n urls [] tr) ! j = (r @ [entry]) ! j"
    using loop_prefix[of j "r @ [entry]" env "Suc j" n "drop (Suc j) urls" t1] lr by simp
  moreover have "(r @ [entry]) ! j = entry"
    using lr by (simp add: nth_append)
  ultimately show ?thesis using rt it by simp
qed

lemma iteration_url:
  "json_get (fst (extract_multiple_pdfs_iteration env i n u tr)) (ascii ''url'') = Some u"
  by (simp add: iteration_unfold extract_multiple_pdfs_pipeline_final download_failed_entry_def
      unreadable_entry_def success_entry_def ascii_def split: prod.splits option.splits)

lemma iteration_calls:
  "downloads (snd (extract_multiple_pdfs_iteration env i n u tr)) = downloads tr @ [(u, 30)]"
proof -
  let ?tr1 = "tr @ [Log INFO ''Processing PDF {}/{}: {}'' [JInt (int i + 1), JInt (int n), u]]"
  have d: "downloads (snd (download_pdf env u ?tr1)) = downloads tr @ [(u, 30)]"
    by (simp add: download_pdf_calls calls_append calls_simps)
  show ?thesis
    using d
    by (auto simp add: iteration_unfold extract_multiple_pdfs_pipeline_calls
        split: prod.splits option.splits)
qed

lemma loop_downloads:
  "downloads (snd (extract_multiple_pdfs_loop env i n urls results tr)) =
     downloads tr @ map (\<lambda>u. (u, 30)) urls"
proof (induction urls arbitrary: i results tr)
  case Nil
  then show ?case by simp
next
  case (Cons u urls)
  obtain entry tr1 where it: "extract_multiple_pdfs_iteration env i n u tr = (entry, tr1)"
    by (cases "extract_multiple_pdfs_iteration env i n u tr")
  then have "downloads tr1 = downloads tr @ [(u, 30)]"
    using iteration_calls[of env i n u tr] by simp
  then show ?case using it Cons[of "Suc i" "results @ [entry]" tr1] by simp
qed

lemma extract_multiple_pdfs_with_urls:
  assumes "get_json request = Inr (JDict kvs)" "map_of kvs (ascii ''urls'') = Some (JList urls)"
  shows "extract_multiple_pdfs env request tr =
           (\<lparr>body = JDict
               [(ascii ''success'', JBool True),
                (ascii ''results'',
                 JList (fst (extract_multiple_pdfs_loop env 0 (length urls) urls [] tr))),
                (ascii ''total_processed'', JInt (int (length urls)))],
             status = 200\<rparr>,
            snd (extract_multiple_pdfs_loop env 0 (length urls) urls [] tr))"
  using assms
  by (simp add: extract_multiple_pdfs_def extract_multiple_pdfs_try_def missing_key_dict
      split: prod.splits)

subsection \<open>C3: the batch returns one result per URL\<close>

text \<open>
  Claim C3. For a batch request whose \<open>urls\<close> is a list of N values, the response is a 200
  whose \<open>results\<close> has exactly N entries and whose \<open>total_processed\<close> is N, whatever
  the outcome of each URL. The entry at position j carries the URL at position j and is what
  one turn of the loop yields for that URL after the turns for the URLs before it. Every URL
  is downloaded, once and in input order, so no failure ends the loop early.
\<close>

theorem batch_results_one_per_url:
  assumes "get_json request = Inr (JDict kvs)"
      and "map_of kvs (ascii ''urls'') = Some (JList urls)"
  shows "\<exists>results tr'.
           extract_multiple_pdfs env request tr =
             (\<lparr>body = JDict [(ascii ''success'', JBool True),
                             (ascii ''results'', JList results),
                             (ascii ''total_processed'', JInt (int (length urls)))],
               status = 200\<rparr>, tr') \<and>
           length results = length urls \<and>
           (\<forall>j<length urls.
              json_get (results ! j) (ascii ''url'') = Some (urls ! j) \<and>
              results ! j =
                fst (extract_multiple_pdfs_iteration env j (length urls) (urls ! j)
                       (snd (extract_multiple_pdfs_loop env 0 (length urls) (take j urls) [] tr)))) \<and>
           downloads tr' = downloads tr @ map (\<lambda>u. (u, 30)) urls"
proof -
  let ?results = "fst (extract_multiple_pdfs_loop env 0 (length urls) urls [] tr)"
  let ?tr' = "snd (extract_multiple_pdfs_loop env 0 (length urls) urls [] tr)"
  have 1: "length ?results = length urls"
    by (simp add: loop_length)
  have 2: "\<forall>j<length urls.
              json_get (?results ! j) (ascii ''url'') = Some (urls ! j) \<and>
              ?results ! j =
                fst (extract_multiple_pdfs_iteration env j (length urls) (urls ! j)
                       (snd (extract_multiple_pdfs_loop env 0 (length urls) (take j urls) [] tr)))"
    by (simp add: loop_nth iteration_url)
  have 3: "downloads ?tr' = downloads tr @ map (\<lambda>u. (u, 30)) urls"
    by (rule loop_downloads)
  show ?thesis
    using extract_multiple_pdfs_with_urls[OF assms, of env tr] 1 2 3 by blast
qed

theorem batch_results_one_per_url_witness:
  "get_json (urls_request (JList [sample_url, JStr (ascii ''http://example.com/b.pdf'')])) =
     Inr (JDict [(ascii ''urls'', JList [sample_url, JStr (ascii ''http://example.com/b.pdf'')])]) \<and>
   map_of [(ascii ''urls'', JList [sample_url, JStr (ascii ''http://example.com/b.pdf'')])]
     (ascii ''urls'') = Some (JList [sample_url, JStr (ascii ''http://example.com/b.pdf'')]) \<and>
   fst (extract_multiple_pdfs (sample_env (Inl timeout_exc) (Inl parse_exc) (Inl parse_exc))
          (urls_request (JList [sample_url, JStr (ascii ''http://example.com/b.pdf'')])) []) =
     \<lparr>body = JDict [(ascii ''success'', JBool True),
                     (ascii ''results'',
                      JList [download_failed_entry sample_url,
                             download_failed_entry (JStr (ascii ''http://example.com/b.pdf''))]),
                     (ascii ''total_processed'', JInt 2)],
      status = 200\<rparr> \<and>
   downloads
     (snd (extract_multiple_pdfs (sample_env (Inl timeout_exc) (Inl parse_exc) (Inl parse_exc))
             (urls_request (JList [sample_url, JStr (ascii ''http://example.com/b.pdf'')])) [])) =
     [(sample_url, 30), (JStr (ascii ''http://example.com/b.pdf''), 30)]"
proof -
  let ?E = "sample_env (Inl timeout_exc) (Inl parse_exc) (Inl parse_exc)"
  let ?u2 = "JStr (ascii ''http://example.com/b.pdf'')"
  let ?U = "[sample_url, ?u2]"
  have h1: "get_json (urls_request (JList ?U)) = Inr (JDict [(ascii ''urls'', JList ?U)])"
    by (simp add: urls_request_def)
  have h2: "map_of [(ascii ''urls'', JList ?U)] (ascii ''urls'') = Some (JList ?U)"
    by simp
  have it: "\<And>i n u tr. fst (extract_multiple_pdfs_iteration ?E i n u tr) = download_failed_entry u"
    by (simp add: iteration_unfold download_pdf_def sample_env_def)
  from batch_results_one_per_url [OF h1 h2, of ?E "[]"]
  obtain results tr' where
    r: "extract_multiple_pdfs ?E (urls_request (JList ?U)) [] =
          (\<lparr>body = JDict [(ascii ''success'', JBool True),
                          (ascii ''results'', JList results),
                          (ascii ''total_processed'', JInt (int (length ?U)))],
            status = 200\<rparr>, tr')"
    and len: "length results = length ?U"
    and nth: "\<forall>j<length ?U. results ! j =
                fst (extract_multiple_pdfs_iteration ?E j (length ?U) (?U ! j)
                       (snd (extract_multiple_pdfs_loop ?E 0 (length ?U) (take j ?U) [] [])))"
    and dl: "downloads tr' = downloads [] @ map (\<lambda>u. (u, 30)) ?U"
    by blast
  have r0: "results ! 0 = download_failed_entry sample_url"
    using nth it by simp
  have r1: "results ! 1 = download_failed_entry ?u2"
    using nth it by (simp del: extract_multiple_pdfs_loop.simps)
  have "results = [results ! 0, results ! 1]"
    using len by (cases results; cases "tl results") auto
  then have "results = [download_failed_entry sample_url, download_failed_entry ?u2]"
    using r0 r1 by simp
  then show ?thesis using r dl h1 h2 by (simp add: calls_simps)
qed

lemma both_insufficient_final:
  "insufficient (primary_text env b) \<Longrightarrow> insufficient (fallback_text env b) \<Longrightarrow>
   insufficient (final_text env b)"
  by (simp add: final_text_def)

lemma insufficient_cases:
  "insufficient x \<longleftrightarrow> (case x of None \<Rightarrow> True | Some s \<Rightarrow> length (strip s) < 10)"
  by (cases x) (simp_all add: insufficient_Some, simp add: insufficient_def)

subsection \<open>C1: primary text first, fallback only when it is insufficient\<close>

text \<open>
  Claim C1. For every byte buffer whose primary extraction yields text of trimmed length at
  least 10, both pipelines return that text, which is already trimmed, and the trace grows by
  the primary call alone: the fallback extractor is not invoked. For every byte buffer whose
  primary extraction is absent or of trimmed length below 10, the fallback extractor is
  invoked, once and on the same bytes; when its result is absent or of trimmed length
  below 10 as well, both pipelines report failure.
\<close>

theorem primary_text_returned_without_fallback:
  "(primary_text env b = Some t \<and> 10 \<le> length (strip t) \<longrightarrow>
      extract_pdf_pipeline env u b tr = (success_response u t, tr @ [PdfplumberOpen b]) \<and>
      extract_multiple_pdfs_pipeline env u b tr = (success_entry u t, tr @ [PdfplumberOpen b]) \<and>
      strip t = t \<and>
      fallback_calls (tr @ [PdfplumberOpen b]) = fallback_calls tr) \<and>
   (insufficient (primary_text env b) \<longrightarrow>
      fallback_calls (snd (extract_pdf_pipeline env u b tr)) = fallback_calls tr @ [b] \<and>
      fallback_calls (snd (extract_multiple_pdfs_pipeline env u b tr)) = fallback_calls tr @ [b] \<and>
      (insufficient (fallback_text env b) \<longrightarrow>
         (\<exists>n. fst (extract_pdf_pipeline env u b tr) = unreadable_response u n) \<and>
         fst (extract_multiple_pdfs_pipeline env u b tr) = unreadable_entry u))"
proof (intro conjI impI)
  assume a: "primary_text env b = Some t \<and> 10 \<le> length (strip t)"
  show "extract_pdf_pipeline env u b tr = (success_response u t, tr @ [PdfplumberOpen b])"
    using a by (simp add: extract_pdf_pipeline_primary)
  show "extract_multiple_pdfs_pipeline env u b tr = (success_entry u t, tr @ [PdfplumberOpen b])"
    using a by (simp add: extract_multiple_pdfs_pipeline_primary)
  show "strip t = t" using a primary_text_stripped by blast
  show "fallback_calls (tr @ [PdfplumberOpen b]) = fallback_calls tr"
    by (simp add: calls_append calls_simps)
next
  assume a: "insufficient (primary_text env b)"
  show "fallback_calls (snd (extract_pdf_pipeline env u b tr)) = fallback_calls tr @ [b]"
    using a by (simp add: extract_pdf_pipeline_calls)
  show "fallback_calls (snd (extract_multiple_pdfs_pipeline env u b tr)) = fallback_calls tr @ [b]"
    using a by (simp add: extract_multiple_pdfs_pipeline_calls)
  assume c: "insufficient (fallback_text env b)"
  show "\<exists>n. fst (extract_pdf_pipeline env u b tr) = unreadable_response u n"
    using a c by (auto simp: extract_pdf_pipeline_fallback(1) split: option.splits)
  show "fst (extract_multiple_pdfs_pipeline env u b tr) = unreadable_entry u"
    using a c by (auto simp: extract_multiple_pdfs_pipeline_fallback(1) split: option.splits)
qed

theorem primary_text_returned_without_fallback_witness:
  "primary_text (sample_env (Inl timeout_exc) (one_page ''Hello, world'') (Inl parse_exc))
     sample_pdf = Some (ascii ''Hello, world'') \<and>
   10 \<le> length (strip (ascii ''Hello, world'')) \<and>
   extract_pdf_pipeline (sample_env (Inl timeout_exc) (one_page ''Hello, world'') (Inl parse_exc))
     sample_url sample_pdf [] =
     (success_response sample_url (ascii ''Hello, world''), [PdfplumberOpen sample_pdf]) \<and>
   insufficient
     (primary_text (sample_env (Inl timeout_exc) (one_page ''short'') (Inl parse_exc)) sample_pdf) \<and>
   insufficient
     (fallback_text (sample_env (Inl timeout_exc) (one_page ''short'') (Inl parse_exc)) sample_pdf) \<and>
   fallback_calls
     (snd (extract_pdf_pipeline (sample_env (Inl timeout_exc) (one_page ''short'') (Inl parse_exc))
             sample_url sample_pdf [])) = [sample_pdf] \<and>
   fst (extract_multiple_pdfs_pipeline
          (sample_env (Inl timeout_exc) (one_page ''short'') (Inl parse_exc))
          sample_url sample_pdf []) = unreadable_entry sample_url"
proof -
  let ?E1 = "sample_env (Inl timeout_exc) (one_page ''Hello, world'') (Inl parse_exc)"
  let ?E2 = "sample_env (Inl timeout_exc) (one_page ''short'') (Inl parse_exc)"
  have h1: "primary_text ?E1 sample_pdf = Some (ascii ''Hello, world'')"
    by (simp add: sample_primary_text strip_def isspace_def ascii_def)
  have h2: "10 \<le> length (strip (ascii ''Hello, world''))"
    by (simp add: strip_def isspace_def ascii_def)
  have h3: "insufficient (primary_text ?E2 sample_pdf)"
    by (simp add: sample_primary_text insufficient_cases strip_def isspace_def ascii_def)
  have h4: "insufficient (fallback_text ?E2 sample_pdf)"
    by (simp add: sample_fallback_raises insufficient_def)
  show ?thesis
    using primary_text_returned_without_fallback
            [of ?E1 sample_pdf "ascii ''Hello, world''" sample_url "[]"]
          primary_text_returned_without_fallback [of ?E2 sample_pdf _ sample_url "[]"]
          h1 h2 h3 h4
    by (simp add: calls_simps)
qed

subsection \<open>C10: the fallback text replaces the primary text\<close>

text \<open>
  Claim C10. Whenever the primary text is insufficient, so that the fallback extractor is
  invoked, the response of the single-URL pipeline and the entry of the batch pipeline are
  functions of the fallback text alone: success with the fallback text when it is
  sufficient, and otherwise failure, the single-URL endpoint reporting as
  \<open>extracted_length\<close> the length of the fallback text, 0 when the fallback returned
  nothing. The primary text does not occur in the result, however long it was.
\<close>

theorem fallback_output_replaces_primary:
  "insufficient (primary_text env b) \<longrightarrow>
     fst (extract_pdf_pipeline env u b tr) =
       (case fallback_text env b of
          None \<Rightarrow> unreadable_response u 0
        | Some s \<Rightarrow>
            if length (strip s) < 10 then unreadable_response u (int (length s))
            else success_response u s) \<and>
     fst (extract_multiple_pdfs_pipeline env u b tr) =
       (case fallback_text env b of
          None \<Rightarrow> unreadable_entry u
        | Some s \<Rightarrow>
            if length (strip s) < 10 then unreadable_entry u
            else success_entry u s)"
  by (simp add: extract_pdf_pipeline_fallback(1) extract_multiple_pdfs_pipeline_fallback(1)
      insufficient_Some split: option.splits)

theorem fallback_output_replaces_primary_witness:
  "insufficient
     (primary_text (sample_env pdf_served (one_page ''abcdefghi'') (one_page ''ab'')) sample_pdf) \<and>
   primary_text (sample_env pdf_served (one_page ''abcdefghi'') (one_page ''ab'')) sample_pdf =
     Some (ascii ''abcdefghi'') \<and>
   fst (extract_pdf_pipeline (sample_env pdf_served (one_page ''abcdefghi'') (one_page ''ab''))
          sample_url sample_pdf []) = unreadable_response sample_url 2 \<and>
   insufficient
     (primary_text (sample_env pdf_served (one_page ''abcdefghi'') (Inl parse_exc)) sample_pdf) \<and>
   fst (extract_pdf_pipeline (sample_env pdf_served (one_page ''abcdefghi'') (Inl parse_exc))
          sample_url sample_pdf []) = unreadable_response sample_url 0 \<and>
   fst (extract_multiple_pdfs_pipeline
          (sample_env pdf_served (one_page ''abcdefghi'') (Inl parse_exc))
          sample_url sample_pdf []) = unreadable_entry sample_url"
proof -
  let ?E1 = "sample_env pdf_served (one_page ''abcdefghi'') (one_page ''ab'')"
  let ?E2 = "sample_env pdf_served (one_page ''abcdefghi'') (Inl parse_exc)"
  have p: "\<And>fb. primary_text (sample_env pdf_served (one_page ''abcdefghi'') fb) sample_pdf =
             Some (ascii ''abcdefghi'')"
    by (simp add: sample_primary_text strip_def isspace_def ascii_def)
  have h: "\<And>fb. insufficient
             (primary_text (sample_env pdf_served (one_page ''abcdefghi'') fb) sample_pdf)"
    by (simp add: p insufficient_Some) (simp add: strip_def isspace_def ascii_def)
  have f1: "fallback_text ?E1 sample_pdf = Some (ascii ''ab'')"
    by (simp add: sample_fallback_text strip_def isspace_def ascii_def)
  have f2: "fallback_text ?E2 sample_pdf = None"
    by (simp add: sample_fallback_raises)
  have l: "length (strip (ascii ''ab'')) = 2" "length (ascii ''ab'') = 2"
    by (simp_all add: strip_def isspace_def ascii_def)
  show ?thesis
    using fallback_output_replaces_primary [of ?E1 sample_pdf sample_url "[]"]
          fallback_output_replaces_primary [of ?E2 sample_pdf sample_url "[]"]
          h p f1 f2 l
    by simp
qed

subsection \<open>C4: both extractors insufficient\<close>

text \<open>
  Claim C4, as stated, says that both endpoints report the reason
  \<open>Could not extract readable text\<close>. The single-URL endpoint reports a different string:
  for a downloaded buffer on which both parsers raise, its \<open>error\<close> is
  \<open>Could not extract readable text from PDF\<close>.
\<close>

theorem unreadable_reason_counterexample:
  "insufficient (primary_text (sample_env pdf_served (Inl parse_exc) (Inl parse_exc)) sample_pdf) \<and>
   insufficient (fallback_text (sample_env pdf_served (Inl parse_exc) (Inl parse_exc)) sample_pdf) \<and>
   json_get
     (body (fst (extract_pdf (sample_env pdf_served (Inl parse_exc) (Inl parse_exc))
                   (url_request sample_url) [])))
     (ascii ''error'') = Some (JStr (ascii ''Could not extract readable text from PDF'')) \<and>
   json_get
     (body (fst (extract_pdf (sample_env pdf_served (Inl parse_exc) (Inl parse_exc))
                   (url_request sample_url) [])))
     (ascii ''error'') \<noteq> Some (JStr (ascii ''Could not extract readable text''))"
proof -
  let ?E = "sample_env pdf_served (Inl parse_exc) (Inl parse_exc)"
  have d: "\<And>tr. fst (download_pdf ?E sample_url tr) = Some sample_pdf"
    by (simp add: download_pdf_def sample_env_def pdf_served_def sample_response_def Let_def)
  have np: "sample_pdf \<noteq> []" by (simp add: sample_pdf_def)
  have f: "final_text ?E sample_pdf = None"
    by (simp add: final_text_def sample_primary_raises sample_fallback_raises insufficient_def)
  obtain tr2 where
    dl: "download_pdf ?E sample_url [Log INFO ''Processing PDF: {}'' [sample_url]] =
           (Some sample_pdf, tr2)"
    using d[of "[Log INFO ''Processing PDF: {}'' [sample_url]]"]
    by (metis prod.collapse)
  have "extract_pdf ?E (url_request sample_url) [] =
          extract_pdf_pipeline ?E sample_url sample_pdf tr2"
    using np
    by (simp add: extract_pdf_with_url[of _ "[(ascii ''url'', sample_url)]"] url_request_def dl)
  then have "fst (extract_pdf ?E (url_request sample_url) []) = unreadable_response sample_url 0"
    by (simp add: extract_pdf_pipeline_final f)
  then show ?thesis
    by (simp add: sample_primary_raises sample_fallback_raises insufficient_def
        unreadable_response_def ascii_def)
qed

text \<open>
  Claim C4, amended. For every byte buffer on which both extractors fail or yield text of
  trimmed length below 10, the single-URL pipeline answers with status 400 and the error
  \<open>Could not extract readable text from PDF\<close> (with the URL and the length of the fallback
  text, 0 when there is none), and the batch pipeline appends a failure entry whose error is
  \<open>Could not extract readable text\<close>. The same holds of the endpoint and of the loop turn
  whenever the download delivers such a buffer, so the outcome is never the 500 of the
  catch-all handler.
\<close>

theorem unreadable_failure_reported:
  "insufficient (primary_text env b) \<and> insufficient (fallback_text env b) \<longrightarrow>
     fst (extract_pdf_pipeline env u b tr) =
       unreadable_response u (case fallback_text env b of None \<Rightarrow> 0 | Some s \<Rightarrow> int (length s)) \<and>
     fst (extract_multiple_pdfs_pipeline env u b tr) = unreadable_entry u \<and>
     (get_json request = Inr (JDict kvs) \<and> map_of kvs (ascii ''url'') = Some u \<and>
      fst (download_pdf env u (tr @ [Log INFO ''Processing PDF: {}'' [u]])) = Some b \<and> b \<noteq> [] \<longrightarrow>
        fst (extract_pdf env request tr) =
          unreadable_response u (case fallback_text env b of None \<Rightarrow> 0 | Some s \<Rightarrow> int (length s))) \<and>
     (fst (download_pdf env u
             (tr @ [Log INFO ''Processing PDF {}/{}: {}'' [JInt (int i + 1), JInt (int n), u]])) =
        Some b \<and> b \<noteq> [] \<longrightarrow>
        fst (extract_multiple_pdfs_iteration env i n u tr) = unreadable_entry u)"
proof (intro impI)
  assume a: "insufficient (primary_text env b) \<and> insufficient (fallback_text env b)"
  have 1: "\<And>tr. fst (extract_pdf_pipeline env u b tr) =
       unreadable_response u (case fallback_text env b of None \<Rightarrow> 0 | Some s \<Rightarrow> int (length s))"
    using a by (auto simp: extract_pdf_pipeline_fallback(1) split: option.splits)
  have 2: "\<And>tr. fst (extract_multiple_pdfs_pipeline env u b tr) = unreadable_entry u"
    using a by (auto simp: extract_multiple_pdfs_pipeline_fallback(1) split: option.splits)
  have 3: "get_json request = Inr (JDict kvs) \<and> map_of kvs (ascii ''url'') = Some u \<and>
      fst (download_pdf env u (tr @ [Log INFO ''Processing PDF: {}'' [u]])) = Some b \<and> b \<noteq> [] \<longrightarrow>
        fst (extract_pdf env request tr) =
          unreadable_response u (case fallback_text env b of None \<Rightarrow> 0 | Some s \<Rightarrow> int (length s))"
    using 1 by (auto simp: extract_pdf_with_url split: prod.splits option.splits)
  have 4: "fst (download_pdf env u
             (tr @ [Log INFO ''Processing PDF {}/{}: {}'' [JInt (int i + 1), JInt (int n), u]])) =
        Some b \<and> b \<noteq> [] \<longrightarrow>
        fst (extract_multiple_pdfs_iteration env i n u tr) = unreadable_entry u"
    using 2 by (auto simp: iteration_unfold split: prod.splits option.splits)
  show "fst (extract_pdf_pipeline env u b tr) =
       unreadable_response u (case fallback_text env b of None \<Rightarrow> 0 | Some s \<Rightarrow> int (length s)) \<and>
     fst (extract_multiple_pdfs_pipeline env u b tr) = unreadable_entry u \<and>
     (get_json request = Inr (JDict kvs) \<and> map_of kvs (ascii ''url'') = Some u \<and>
      fst (download_pdf env u (tr @ [Log INFO ''Processing PDF: {}'' [u]])) = Some b \<and> b \<noteq> [] \<longrightarrow>
        fst (extract_pdf env request tr) =
          unreadable_response u (case fallback_text env b of None \<Rightarrow> 0 | Some s \<Rightarrow> int (length s))) \<and>
     (fst (download_pdf env u
             (tr @ [Log INFO ''Processing PDF {}/{}: {}'' [JInt (int i + 1), JInt (int n), u]])) =
        Some b \<and> b \<noteq> [] \<longrightarrow>
        fst (extract_multiple_pdfs_iteration env i n u tr) = unreadable_entry u)"
    using 1 2 3 4 by blast
qed

theorem unreadable_failure_reported_witness:
  "insufficient (primary_text (sample_env pdf_served (one_page ''short'') (Inl parse_exc)) sample_pdf) \<and>
   insufficient (fallback_text (sample_env pdf_served (one_page ''short'') (Inl parse_exc)) sample_pdf) \<and>
   get_json (url_request sample_url) = Inr (JDict [(ascii ''url'', sample_url)]) \<and>
   map_of [(ascii ''url'', sample_url)] (ascii ''url'') = Some sample_url \<and>
   fst (download_pdf (sample_env pdf_served (one_page ''short'') (Inl parse_exc)) sample_url
          ([] @ [Log INFO ''Processing PDF: {}'' [sample_url]])) = Some sample_pdf \<and>
   sample_pdf \<noteq> [] \<and>
   fst (extract_pdf (sample_env pdf_served (one_page ''short'') (Inl parse_exc))
          (url_request sample_url) []) = unreadable_response sample_url 0 \<and>
   status (unreadable_response sample_url 0) = 400 \<and>
   fst (extract_multiple_pdfs_iteration (sample_env pdf_served (one_page ''short'') (Inl parse_exc))
          0 1 sample_url []) = unreadable_entry sample_url"
proof -
  let ?E = "sample_env pdf_served (one_page ''short'') (Inl parse_exc)"
  have h1: "insufficient (primary_text ?E sample_pdf)"
    by (simp add: sample_primary_text insufficient_cases strip_def isspace_def ascii_def)
  have h2: "insufficient (fallback_text ?E sample_pdf)"
    by (simp add: sample_fallback_raises insufficient_def)
  have h3: "get_json (url_request sample_url) = Inr (JDict [(ascii ''url'', sample_url)])"
    by (simp add: url_request_def)
  have h4: "map_of [(ascii ''url'', sample_url)] (ascii ''url'') = Some sample_url"
    by simp
  have d: "\<And>tr. fst (download_pdf ?E sample_url tr) = Some sample_pdf"
    by (simp add: download_pdf_def sample_env_def pdf_served_def sample_response_def Let_def)
  have h5: "sample_pdf \<noteq> []" by (simp add: sample_pdf_def)
  have f: "fallback_text ?E sample_pdf = None" by (simp add: sample_fallback_raises)
  show ?thesis
    using unreadable_failure_reported
            [of ?E sample_pdf sample_url "[]" "url_request sample_url"
                "[(ascii ''url'', sample_url)]" 0 1]
          h1 h2 h3 h4 h5 d f
    by (simp add: unreadable_response_def)
qed

lemma missing_key_falsy: "\<not> truthy data \<Longrightarrow> missing_key k data = Inr True"
  by (simp add: missing_key_def)

lemma extract_pdf_missing:
  assumes "get_json request = Inr data"
      and "\<not> truthy data \<or> (data = JDict kvs \<and> map_of kvs (ascii ''url'') = None)"
  shows "extract_pdf env request tr = (bad_request_response ''Missing 'url' parameter'', tr)"
proof -
  have "missing_key (ascii ''url'') data = Inr True"
    using assms(2) by (auto simp: missing_key_falsy missing_key_dict)
  then show ?thesis using assms(1)
    by (simp add: extract_pdf_def extract_pdf_try_def bad_request_response_def)
qed

lemma extract_multiple_pdfs_missing:
  assumes "get_json request = Inr data"
      and "\<not> truthy data \<or> (data = JDict kvs \<and> map_of kvs (ascii ''urls'') = None)"
  shows "extract_multiple_pdfs env request tr =
           (bad_request_response ''Missing 'urls' parameter (should be array)'', tr)"
proof -
  have "missing_key (ascii ''urls'') data = Inr True"
    using assms(2) by (auto simp: missing_key_falsy missing_key_dict)
  then show ?thesis using assms(1)
    by (simp add: extract_multiple_pdfs_def extract_multiple_pdfs_try_def bad_request_response_def)
qed

lemma extract_multiple_pdfs_not_list:
  assumes "get_json request = Inr (JDict kvs)" "map_of kvs (ascii ''urls'') = Some v"
      and "\<not> is_list v"
  shows "extract_multiple_pdfs env request tr =
           (bad_request_response '''urls' should be an array'', tr)"
  using assms
  by (cases v)
     (simp_all add: extract_multiple_pdfs_def extract_multiple_pdfs_try_def missing_key_dict
        bad_request_response_def)

lemma get_json_raises:
  assumes "get_json request = Inl e"
  shows "extract_pdf env request tr =
           (internal_error_response e, tr @ [Log ERROR ''Extraction error: {}'' [JStr (exc_str e)]])"
    and "extract_multiple_pdfs env request tr =
           (internal_error_response e,
            tr @ [Log ERROR ''Multiple extraction error: {}'' [JStr (exc_str e)]])"
  using assms
  by (simp_all add: extract_pdf_def extract_pdf_try_def extract_multiple_pdfs_def
      extract_multiple_pdfs_try_def internal_error_response_def)

subsection \<open>C5: missing \<open>url\<close>, non-array \<open>urls\<close>\<close>

text \<open>
  Claim C5. A POST to \<open>/extract-pdf\<close> whose JSON body is an object without the key \<open>url\<close>
  (the empty object included) is answered with status 400 and the error
  \<open>Missing 'url' parameter\<close>, and nothing is downloaded or logged. A POST to
  \<open>/extract-multiple\<close> whose body maps \<open>urls\<close> to a value that is not a list is answered
  with status 400 and the error \<open>'urls' should be an array\<close>.
\<close>

theorem missing_url_and_non_array_urls:
  "(get_json request = Inr (JDict kvs) \<and> map_of kvs (ascii ''url'') = None \<longrightarrow>
      extract_pdf env request tr = (bad_request_response ''Missing 'url' parameter'', tr)) \<and>
   (get_json request = Inr (JDict kvs) \<and> map_of kvs (ascii ''urls'') = Some v \<and> \<not> is_list v \<longrightarrow>
      extract_multiple_pdfs env request tr =
        (bad_request_response '''urls' should be an array'', tr))"
  using extract_pdf_missing[of request "JDict kvs" kvs env tr]
        extract_multiple_pdfs_not_list[of request kvs v env tr]
  by blast

theorem missing_url_and_non_array_urls_witness:
  "get_json \<lparr>get_json = Inr (JDict [])\<rparr> = Inr (JDict []) \<and>
   map_of ([] :: (pystr \<times> json) list) (ascii ''url'') = None \<and>
   extract_pdf (sample_env pdf_served (one_page ''Hello, world'') (Inl parse_exc))
     \<lparr>get_json = Inr (JDict [])\<rparr> [] =
     (\<lparr>body = JDict [(ascii ''error'', JStr (ascii ''Missing 'url' parameter''))],
       status = 400\<rparr>, []) \<and>
   get_json (urls_request (JStr (ascii ''not-an-array''))) =
     Inr (JDict [(ascii ''urls'', JStr (ascii ''not-an-array''))]) \<and>
   map_of [(ascii ''urls'', JStr (ascii ''not-an-array''))] (ascii ''urls'') =
     Some (JStr (ascii ''not-an-array'')) \<and>
   \<not> is_list (JStr (ascii ''not-an-array'')) \<and>
   extract_multiple_pdfs (sample_env pdf_served (one_page ''Hello, world'') (Inl parse_exc))
     (urls_request (JStr (ascii ''not-an-array''))) [] =
     (\<lparr>body = JDict [(ascii ''error'', JStr (ascii '''urls' should be an array''))],
       status = 400\<rparr>, [])"
  using missing_url_and_non_array_urls
          [where request = "\<lparr>get_json = Inr (JDict [])\<rparr>" and kvs = "[]" and tr = "[]"
             and env = "sample_env pdf_served (one_page ''Hello, world'') (Inl parse_exc)"]
        missing_url_and_non_array_urls
          [where request = "urls_request (JStr (ascii ''not-an-array''))"
             and kvs = "[(ascii ''urls'', JStr (ascii ''not-an-array''))]"
             and v = "JStr (ascii ''not-an-array'')" and tr = "[]"
             and env = "sample_env pdf_served (one_page ''Hello, world'') (Inl parse_exc)"]
  by (simp add: urls_request_def bad_request_response_def)

subsection \<open>C8: bodies that are missing or malformed\<close>

text \<open>
  Claim C8, as stated, says that a missing or malformed body, a body that is not parseable
  JSON included, is always answered with status 400 and never with 500. When
  \<open>get_json()\<close> raises, as Flask does for a body that is not JSON, the \<open>except Exception\<close>
  of either view answers with status 500. So does the single-URL view for the JSON body \<open>5\<close>,
  where the test \<open>'url' in data\<close> raises a \<open>TypeError\<close>.
\<close>

theorem malformed_body_counterexample:
  "status (fst (extract_pdf (sample_env pdf_served (one_page ''Hello, world'') (Inl parse_exc))
                  \<lparr>get_json = Inl bad_json_exc\<rparr> [])) = 500 \<and>
   status (fst (extract_multiple_pdfs
                  (sample_env pdf_served (one_page ''Hello, world'') (Inl parse_exc))
                  \<lparr>get_json = Inl bad_json_exc\<rparr> [])) = 500 \<and>
   status (fst (extract_pdf (sample_env pdf_served (one_page ''Hello, world'') (Inl parse_exc))
                  \<lparr>get_json = Inr (JInt 5)\<rparr> [])) = 500"
  by (simp add: extract_pdf_def extract_pdf_try_def extract_multiple_pdfs_def
      extract_multiple_pdfs_try_def missing_key_def)

text \<open>
  Claim C8, amended. For every request to \<open>/extract-pdf\<close> or \<open>/extract-multiple\<close> whose body
  \<open>get_json()\<close> delivers as a falsy value (\<open>null\<close>, \<open>false\<close>, zero, an empty string, array
  or object) or as an object without the required key, and for every request to
  \<open>/extract-multiple\<close> whose \<open>urls\<close> is not a list, the endpoint responds with status 400
  and a descriptive error, and nothing is logged. A request on which \<open>get_json()\<close> raises is
  answered through the catch-all handler with status 500 and the error
  \<open>Internal server error: \<close> followed by the description of the exception.
\<close>

theorem falsy_or_keyless_body_is_400:
  "(get_json request = Inr data \<and>
      (\<not> truthy data \<or> (data = JDict kvs \<and> map_of kvs (ascii ''url'') = None)) \<longrightarrow>
      extract_pdf env request tr = (bad_request_response ''Missing 'url' parameter'', tr)) \<and>
   (get_json request = Inr data \<and>
      (\<not> truthy data \<or> (data = JDict kvs \<and> map_of kvs (ascii ''urls'') = None)) \<longrightarrow>
      extract_multiple_pdfs env request tr =
        (bad_request_response ''Missing 'urls' parameter (should be array)'', tr)) \<and>
   (get_json request = Inr (JDict kvs) \<and> map_of kvs (ascii ''urls'') = Some v \<and> \<not> is_list v \<longrightarrow>
      extract_multiple_pdfs env request tr =
        (bad_request_response '''urls' should be an array'', tr)) \<and>
   (get_json request = Inl e \<longrightarrow>
      fst (extract_pdf env request tr) = internal_error_response e \<and>
      fst (extract_multiple_pdfs env request tr) = internal_error_response e)"
  using extract_pdf_missing[of request data kvs env tr]
        extract_multiple_pdfs_missing[of request data kvs env tr]
        extract_multiple_pdfs_not_list[of request kvs v env tr]
        get_json_raises[of request e env tr]
  by auto

theorem falsy_or_keyless_body_is_400_witness:
  "get_json \<lparr>get_json = Inr JNull\<rparr> = Inr JNull \<and> \<not> truthy JNull \<and>
   extract_pdf (sample_env pdf_served (one_page ''Hello, world'') (Inl parse_exc))
     \<lparr>get_json = Inr JNull\<rparr> [] = (bad_request_response ''Missing 'url' parameter'', []) \<and>
   extract_multiple_pdfs (sample_env pdf_served (one_page ''Hello, world'') (Inl parse_exc))
     \<lparr>get_json = Inr JNull\<rparr> [] =
     (bad_request_response ''Missing 'urls' parameter (should be array)'', []) \<and>
   status (bad_request_response ''Missing 'url' parameter'') = 400 \<and>
   get_json (url_request sample_url) = Inr (JDict [(ascii ''url'', sample_url)]) \<and>
   map_of [(ascii ''url'', sample_url)] (ascii ''urls'') = None \<and>
   extract_multiple_pdfs (sample_env pdf_served (one_page ''Hello, world'') (Inl parse_exc))
     (url_request sample_url) [] =
     (bad_request_response ''Missing 'urls' parameter (should be array)'', []) \<and>
   get_json (urls_request (JInt 7)) = Inr (JDict [(ascii ''urls'', JInt 7)]) \<and>
   map_of [(ascii ''urls'', JInt 7)] (ascii ''urls'') = Some (JInt 7) \<and> \<not> is_list (JInt 7) \<and>
   extract_multiple_pdfs (sample_env pdf_served (one_page ''Hello, world'') (Inl parse_exc))
     (urls_request (JInt 7)) [] = (bad_request_response '''urls' should be an array'', []) \<and>
   get_json \<lparr>get_json = Inl bad_json_exc\<rparr> = Inl bad_json_exc \<and>
   fst (extract_pdf (sample_env pdf_served (one_page ''Hello, world'') (Inl parse_exc))
          \<lparr>get_json = Inl bad_json_exc\<rparr> []) = internal_error_response bad_json_exc \<and>
   status (internal_error_response bad_json_exc) = 500"
proof -
  let ?E = "sample_env pdf_served (one_page ''Hello, world'') (Inl parse_exc)"
  have k: "map_of [(ascii ''url'', sample_url)] (ascii ''urls'') = None"
    by (simp add: ascii_def)
  show ?thesis
    using falsy_or_keyless_body_is_400
            [where request = "\<lparr>get_json = Inr JNull\<rparr>" and data = JNull and env = ?E
               and tr = "[]"]
          falsy_or_keyless_body_is_400
            [where request = "url_request sample_url"
               and data = "JDict [(ascii ''url'', sample_url)]"
               and kvs = "[(ascii ''url'', sample_url)]" and env = ?E and tr = "[]"]
          falsy_or_keyless_body_is_400
            [where request = "urls_request (JInt 7)" and kvs = "[(ascii ''urls'', JInt 7)]"
               and v = "JInt 7" and env = ?E and tr = "[]"]
          falsy_or_keyless_body_is_400
            [where request = "\<lparr>get_json = Inl bad_json_exc\<rparr>" and e = bad_json_exc
               and env = ?E and tr = "[]"]
          k
    by (simp add: url_request_def urls_request_def bad_request_response_def
        internal_error_response_def)
qed

lemma download_pdf_snd_calls:
  "primary_calls (snd (download_pdf env url tr)) = primary_calls tr \<and>
   fallback_calls (snd (download_pdf env url tr)) = fallback_calls tr"
  by (simp add: download_pdf_calls)

lemma extract_pdf_download_falsy:
  assumes "get_json request = Inr (JDict kvs)" "map_of kvs (ascii ''url'') = Some u"
      and "fst (download_pdf env u (tr @ [Log INFO ''Processing PDF: {}'' [u]])) = None \<or>
           fst (download_pdf env u (tr @ [Log INFO ''Processing PDF: {}'' [u]])) = Some []"
  shows "extract_pdf env request tr =
           (download_failed_response u,
            snd (download_pdf env u (tr @ [Log INFO ''Processing PDF: {}'' [u]])))"
  using assms(3)
  by (auto simp: extract_pdf_with_url[OF assms(1,2)] split: prod.splits option.splits)

lemma extract_pdf_download_bytes:
  assumes "get_json request = Inr (JDict kvs)" "map_of kvs (ascii ''url'') = Some u"
      and "fst (download_pdf env u (tr @ [Log INFO ''Processing PDF: {}'' [u]])) = Some b"
      and "b \<noteq> []"
  shows "extract_pdf env request tr =
           extract_pdf_pipeline env u b
             (snd (download_pdf env u (tr @ [Log INFO ''Processing PDF: {}'' [u]])))"
  using assms(3,4)
  by (auto simp: extract_pdf_with_url[OF assms(1,2)] split: prod.splits option.splits)

lemma iteration_download_falsy:
  assumes "fst (download_pdf env u
             (tr @ [Log INFO ''Processing PDF {}/{}: {}'' [JInt (int i + 1), JInt (int n), u]])) = None \<or>
           fst (download_pdf env u
             (tr @ [Log INFO ''Processing PDF {}/{}: {}'' [JInt (int i + 1), JInt (int n), u]])) = Some []"
  shows "extract_multiple_pdfs_iteration env i n u tr =
           (download_failed_entry u,
            snd (download_pdf env u
                   (tr @ [Log INFO ''Processing PDF {}/{}: {}'' [JInt (int i + 1), JInt (int n), u]])))"
  using assms
  by (auto simp: iteration_unfold split: prod.splits option.splits)

subsection \<open>C9: an empty body counts as a failed download\<close>

text \<open>
  Claim C9. For every URL whose GET returns a response with a success status and an empty
  body, \<open>download_pdf\<close> returns the empty byte string, and both endpoints report the failure
  \<open>Failed to download PDF\<close> for that URL, the same as for a download that raised; neither
  extractor is invoked.
\<close>

theorem empty_body_reported_as_download_failure:
  "requests_get env trd u 30 = Inr r \<and> raise_for_status r = None \<and> content r = [] \<longrightarrow>
     fst (download_pdf env u trd) = Some [] \<and>
     (trd = tr @ [Log INFO ''Processing PDF: {}'' [u]] \<and>
      get_json request = Inr (JDict kvs) \<and> map_of kvs (ascii ''url'') = Some u \<longrightarrow>
        fst (extract_pdf env request tr) = download_failed_response u \<and>
        primary_calls (snd (extract_pdf env request tr)) = primary_calls tr \<and>
        fallback_calls (snd (extract_pdf env request tr)) = fallback_calls tr) \<and>
     (trd = tr @ [Log INFO ''Processing PDF {}/{}: {}'' [JInt (int i + 1), JInt (int n), u]] \<longrightarrow>
        fst (extract_multiple_pdfs_iteration env i n u tr) = download_failed_entry u \<and>
        primary_calls (snd (extract_multiple_pdfs_iteration env i n u tr)) = primary_calls tr \<and>
        fallback_calls (snd (extract_multiple_pdfs_iteration env i n u tr)) = fallback_calls tr)"
proof (intro impI)
  assume a: "requests_get env trd u 30 = Inr r \<and> raise_for_status r = None \<and> content r = []"
  then have d: "fst (download_pdf env u trd) = Some []"
    by (simp add: download_pdf_ok)
  have s: "trd = tr @ [Log INFO ''Processing PDF: {}'' [u]] \<and>
      get_json request = Inr (JDict kvs) \<and> map_of kvs (ascii ''url'') = Some u \<longrightarrow>
        fst (extract_pdf env request tr) = download_failed_response u \<and>
        primary_calls (snd (extract_pdf env request tr)) = primary_calls tr \<and>
        fallback_calls (snd (extract_pdf env request tr)) = fallback_calls tr"
    using d by (auto simp: extract_pdf_download_falsy download_pdf_calls calls_append calls_simps)
  have m: "trd = tr @ [Log INFO ''Processing PDF {}/{}: {}'' [JInt (int i + 1), JInt (int n), u]] \<longrightarrow>
        fst (extract_multiple_pdfs_iteration env i n u tr) = download_failed_entry u \<and>
        primary_calls (snd (extract_multiple_pdfs_iteration env i n u tr)) = primary_calls tr \<and>
        fallback_calls (snd (extract_multiple_pdfs_iteration env i n u tr)) = fallback_calls tr"
    using d by (auto simp: iteration_download_falsy download_pdf_calls calls_append calls_simps)
  show "fst (download_pdf env u trd) = Some [] \<and>
     (trd = tr @ [Log INFO ''Processing PDF: {}'' [u]] \<and>
      get_json request = Inr (JDict kvs) \<and> map_of kvs (ascii ''url'') = Some u \<longrightarrow>
        fst (extract_pdf env request tr) = download_failed_response u \<and>
        primary_calls (snd (extract_pdf env request tr)) = primary_calls tr \<and>
        fallback_calls (snd (extract_pdf env request tr)) = fallback_calls tr) \<and>
     (trd = tr @ [Log INFO ''Processing PDF {}/{}: {}'' [JInt (int i + 1), JInt (int n), u]] \<longrightarrow>
        fst (extract_multiple_pdfs_iteration env i n u tr) = download_failed_entry u \<and>
        primary_calls (snd (extract_multiple_pdfs_iteration env i n u tr)) = primary_calls tr \<and>
        fallback_calls (snd (extract_multiple_pdfs_iteration env i n u tr)) = fallback_calls tr)"
    using d s m by blast
qed

theorem empty_body_reported_as_download_failure_witness:
  "requests_get
     (sample_env (Inr (sample_response (Some (ascii ''application/pdf'')) []))
        (one_page ''Hello, world'') (one_page ''Hello, world''))
     [Log INFO ''Processing PDF: {}'' [sample_url]] sample_url 30 =
     Inr (sample_response (Some (ascii ''application/pdf'')) []) \<and>
   raise_for_status (sample_response (Some (ascii ''application/pdf'')) []) = None \<and>
   content (sample_response (Some (ascii ''application/pdf'')) []) = [] \<and>
   get_json (url_request sample_url) = Inr (JDict [(ascii ''url'', sample_url)]) \<and>
   map_of [(ascii ''url'', sample_url)] (ascii ''url'') = Some sample_url \<and>
   fst (extract_pdf
          (sample_env (Inr (sample_response (Some (ascii ''application/pdf'')) []))
             (one_page ''Hello, world'') (one_page ''Hello, world''))
          (url_request sample_url) []) = download_failed_response sample_url \<and>
   primary_calls
     (snd (extract_pdf
             (sample_env (Inr (sample_response (Some (ascii ''application/pdf'')) []))
                (one_page ''Hello, world'') (one_page ''Hello, world''))
             (url_request sample_url) [])) = [] \<and>
   fst (extract_multiple_pdfs_iteration
          (sample_env (Inr (sample_response (Some (ascii ''application/pdf'')) []))
             (one_page ''Hello, world'') (one_page ''Hello, world''))
          0 1 sample_url []) = download_failed_entry sample_url"
proof -
  let ?r = "sample_response (Some (ascii ''application/pdf'')) []"
  let ?E = "sample_env (Inr ?r) (one_page ''Hello, world'') (one_page ''Hello, world'')"
  have g: "\<And>tr. requests_get ?E tr sample_url 30 = Inr ?r"
    by (simp add: sample_env_def)
  have r: "raise_for_status ?r = None" "content ?r = []"
    by (simp_all add: sample_response_def)
  have q: "get_json (url_request sample_url) = Inr (JDict [(ascii ''url'', sample_url)])"
    by (simp add: url_request_def)
  show ?thesis
    using empty_body_reported_as_download_failure
            [where env = ?E and u = sample_url and r = ?r and tr = "[]"
               and trd = "[] @ [Log INFO ''Processing PDF: {}'' [sample_url]]"
               and request = "url_request sample_url" and kvs = "[(ascii ''url'', sample_url)]"]
          empty_body_reported_as_download_failure
            [where env = ?E and u = sample_url and r = ?r and tr = "[]" and i = 0 and n = 1
               and trd = "[] @ [Log INFO ''Processing PDF {}/{}: {}''
                                  [JInt (int 0 + 1), JInt (int 1), sample_url]]"]
          g r q
    by (simp add: calls_simps)
qed

subsection \<open>C6: the fetcher\<close>

text \<open>
  Claim C6. For every URL, \<open>download_pdf\<close> issues one HTTP GET with a timeout of 30
  seconds. When the GET raises (a network error or a timeout) or \<open>raise_for_status\<close> raises
  (the HTTP client's verdict on the status), the failure is logged and reported as no
  result, and \<open>/extract-pdf\<close> answers with status 400, the error \<open>Failed to download PDF\<close>
  and the URL. When neither raises, the body is returned whatever the content type; a
  content type without \<open>pdf\<close> adds one warning to the log and nothing else, and a non-empty
  body is handed to the extraction stage.
\<close>

theorem fetcher_failures_and_content_type:
  "downloads (snd (download_pdf env url tr)) = downloads tr @ [(url, 30)] \<and>
   (requests_get env tr url 30 = Inl e \<or>
    (requests_get env tr url 30 = Inr r \<and> raise_for_status r = Some e) \<longrightarrow>
      download_pdf env url tr =
        (None, tr @ [RequestsGet url 30,
                     Log ERROR ''Failed to download PDF: {}'' [JStr (exc_str e)]]) \<and>
      (tr = trv @ [Log INFO ''Processing PDF: {}'' [url]] \<and>
       get_json request = Inr (JDict kvs) \<and> map_of kvs (ascii ''url'') = Some url \<longrightarrow>
         fst (extract_pdf env request trv) = download_failed_response url)) \<and>
   (requests_get env tr url 30 = Inr r \<and> raise_for_status r = None \<longrightarrow>
      download_pdf env url tr =
        (Some (content r),
         tr @ [RequestsGet url 30] @
         (if \<not> str_contains (ascii ''pdf'') (content_type_of env r)
          then [Log WARNING ''Content type is {}, not PDF'' [JStr (content_type_of env r)]]
          else [])) \<and>
      (tr = trv @ [Log INFO ''Processing PDF: {}'' [url]] \<and>
       get_json request = Inr (JDict kvs) \<and> map_of kvs (ascii ''url'') = Some url \<and>
       content r \<noteq> [] \<longrightarrow>
         extract_pdf env request trv =
           extract_pdf_pipeline env url (content r) (snd (download_pdf env url tr))))"
proof (intro conjI impI)
  show "downloads (snd (download_pdf env url tr)) = downloads tr @ [(url, 30)]"
    by (simp add: download_pdf_calls)
next
  assume a: "requests_get env tr url 30 = Inl e \<or>
    (requests_get env tr url 30 = Inr r \<and> raise_for_status r = Some e)"
  then show f: "download_pdf env url tr =
        (None, tr @ [RequestsGet url 30,
                     Log ERROR ''Failed to download PDF: {}'' [JStr (exc_str e)]])"
    by (intro download_pdf_failed) auto
  assume "tr = trv @ [Log INFO ''Processing PDF: {}'' [url]] \<and>
       get_json request = Inr (JDict kvs) \<and> map_of kvs (ascii ''url'') = Some url"
  then show "fst (extract_pdf env request trv) = download_failed_response url"
    using f by (simp add: extract_pdf_download_falsy)
next
  assume a: "requests_get env tr url 30 = Inr r \<and> raise_for_status r = None"
  then show f: "download_pdf env url tr =
        (Some (content r),
         tr @ [RequestsGet url 30] @
         (if \<not> str_contains (ascii ''pdf'') (content_type_of env r)
          then [Log WARNING ''Content type is {}, not PDF'' [JStr (content_type_of env r)]]
          else []))"
    by (simp add: download_pdf_ok)
  assume b: "tr = trv @ [Log INFO ''Processing PDF: {}'' [url]] \<and>
       get_json request = Inr (JDict kvs) \<and> map_of kvs (ascii ''url'') = Some url \<and>
       content r \<noteq> []"
  have "fst (download_pdf env url (trv @ [Log INFO ''Processing PDF: {}'' [url]])) =
          Some (content r)"
    using f b by simp
  then show "extract_pdf env request trv =
           extract_pdf_pipeline env url (content r) (snd (download_pdf env url tr))"
    using b extract_pdf_download_bytes[of request kvs url env trv "content r"] by simp
qed

theorem fetcher_failures_and_content_type_witness:
  "requests_get (sample_env (Inl timeout_exc) (one_page ''Hello, world'') (Inl parse_exc))
     ([] @ [Log INFO ''Processing PDF: {}'' [sample_url]]) sample_url 30 = Inl timeout_exc \<and>
   get_json (url_request sample_url) = Inr (JDict [(ascii ''url'', sample_url)]) \<and>
   map_of [(ascii ''url'', sample_url)] (ascii ''url'') = Some sample_url \<and>
   download_pdf (sample_env (Inl timeout_exc) (one_page ''Hello, world'') (Inl parse_exc))
     sample_url [Log INFO ''Processing PDF: {}'' [sample_url]] =
     (None, [Log INFO ''Processing PDF: {}'' [sample_url], RequestsGet sample_url 30,
             Log ERROR ''Failed to download PDF: {}'' [JStr (ascii ''Read timed out.'')]]) \<and>
   fst (extract_pdf (sample_env (Inl timeout_exc) (one_page ''Hello, world'') (Inl parse_exc))
          (url_request sample_url) []) =
     \<lparr>body = JDict [(ascii ''error'', JStr (ascii ''Failed to download PDF'')),
                     (ascii ''url'', sample_url)],
      status = 400\<rparr> \<and>
   requests_get
     (sample_env (Inr (sample_response (Some (ascii ''Text/HTML'')) sample_pdf))
        (one_page ''Hello, world'') (Inl parse_exc))
     ([] @ [Log INFO ''Processing PDF: {}'' [sample_url]]) sample_url 30 =
     Inr (sample_response (Some (ascii ''Text/HTML'')) sample_pdf) \<and>
   raise_for_status (sample_response (Some (ascii ''Text/HTML'')) sample_pdf) = None \<and>
   content (sample_response (Some (ascii ''Text/HTML'')) sample_pdf) \<noteq> [] \<and>
   download_pdf
     (sample_env (Inr (sample_response (Some (ascii ''Text/HTML'')) sample_pdf))
        (one_page ''Hello, world'') (Inl parse_exc))
     sample_url [Log INFO ''Processing PDF: {}'' [sample_url]] =
     (Some sample_pdf,
      [Log INFO ''Processing PDF: {}'' [sample_url], RequestsGet sample_url 30,
       Log WARNING ''Content type is {}, not PDF'' [JStr (ascii ''text/html'')]]) \<and>
   fst (extract_pdf
          (sample_env (Inr (sample_response (Some (ascii ''Text/HTML'')) sample_pdf))
             (one_page ''Hello, world'') (Inl parse_exc))
          (url_request sample_url) []) = success_response sample_url (ascii ''Hello, world'')"
proof -
  let ?Et = "sample_env (Inl timeout_exc) (one_page ''Hello, world'') (Inl parse_exc)"
  let ?r = "sample_response (Some (ascii ''Text/HTML'')) sample_pdf"
  let ?Eh = "sample_env (Inr ?r) (one_page ''Hello, world'') (Inl parse_exc)"
  let ?tr = "[] @ [Log INFO ''Processing PDF: {}'' [sample_url]]"
  have g1: "requests_get ?Et ?tr sample_url 30 = Inl timeout_exc"
    by (simp add: sample_env_def)
  have g2: "requests_get ?Eh ?tr sample_url 30 = Inr ?r"
    by (simp add: sample_env_def)
  have r: "raise_for_status ?r = None" "content ?r = sample_pdf" "sample_pdf \<noteq> []"
    by (simp_all add: sample_response_def sample_pdf_def)
  have q: "get_json (url_request sample_url) = Inr (JDict [(ascii ''url'', sample_url)])"
    by (simp add: url_request_def)
  have ct: "content_type_of ?Eh ?r = ascii ''text/html''"
    by (simp add: content_type_of_def sample_env_def sample_response_def ascii_lower_def ascii_def)
  have nc: "\<not> str_contains (ascii ''pdf'') (ascii ''text/html'')"
    by (simp add: ascii_def)
  have p: "primary_text ?Eh sample_pdf = Some (ascii ''Hello, world'')"
          "10 \<le> length (strip (ascii ''Hello, world''))"
    by (simp_all add: sample_primary_text strip_def isspace_def ascii_def)
  have e: "exc_str timeout_exc = ascii ''Read timed out.''"
    by (simp add: timeout_exc_def)
  note t1 = fetcher_failures_and_content_type
              [where env = ?Et and url = sample_url and tr = ?tr and trv = "[]"
                 and e = timeout_exc and request = "url_request sample_url"
                 and kvs = "[(ascii ''url'', sample_url)]"]
  note t2 = fetcher_failures_and_content_type
              [where env = ?Eh and url = sample_url and tr = ?tr and trv = "[]" and r = ?r
                 and request = "url_request sample_url"
                 and kvs = "[(ascii ''url'', sample_url)]"]
  have a: "download_pdf ?Et sample_url ?tr =
             (None, ?tr @ [RequestsGet sample_url 30,
                           Log ERROR ''Failed to download PDF: {}'' [JStr (exc_str timeout_exc)]])"
       and b: "fst (extract_pdf ?Et (url_request sample_url) []) =
                 download_failed_response sample_url"
    using t1 g1 q by simp_all
  have c: "download_pdf ?Eh sample_url ?tr =
             (Some sample_pdf,
              ?tr @ [RequestsGet sample_url 30,
                     Log WARNING ''Content type is {}, not PDF'' [JStr (ascii ''text/html'')]])"
    using t2 g2 r ct nc by simp
  have "extract_pdf ?Eh (url_request sample_url) [] =
          extract_pdf_pipeline ?Eh sample_url sample_pdf (snd (download_pdf ?Eh sample_url ?tr))"
    using t2 g2 r q by simp
  then have d: "fst (extract_pdf ?Eh (url_request sample_url) []) =
                  success_response sample_url (ascii ''Hello, world'')"
    using p by (simp add: extract_pdf_pipeline_primary)
  show ?thesis
    using a b c d g1 g2 r q e by (simp add: download_failed_response_def)
qed

subsection \<open>C2: success only with sufficient text\<close>

lemma pipeline_success_shape:
  "status (fst (extract_pdf_pipeline env u b tr)) = 200 \<or>
   json_get (body (fst (extract_pdf_pipeline env u b tr))) (ascii ''success'') = Some (JBool True) \<Longrightarrow>
   \<exists>s. fst (extract_pdf_pipeline env u b tr) = success_response u s \<and>
       s \<noteq> [] \<and> 10 \<le> length (strip s)"
  by (auto simp: extract_pdf_pipeline_final unreadable_response_def ascii_def strip_def
      split: option.splits if_splits)

lemma extract_pdf_success_shape:
  assumes "status (fst (extract_pdf env request tr)) = 200 \<or>
           json_get (body (fst (extract_pdf env request tr))) (ascii ''success'') = Some (JBool True)"
  shows "\<exists>u s. fst (extract_pdf env request tr) = success_response u s \<and>
           s \<noteq> [] \<and> 10 \<le> length (strip s)"
proof (cases "get_json request")
  case (Inl e)
  then show ?thesis using assms
    by (simp add: get_json_raises internal_error_response_def ascii_def)
next
  case (Inr data)
  show ?thesis
  proof (cases "missing_key (ascii ''url'') data")
    case (Inl e)
    then show ?thesis using assms Inr
      by (simp add: extract_pdf_def extract_pdf_try_def ascii_def)
  next
    case mk: (Inr missing)
    show ?thesis
    proof (cases missing)
      case True
      then show ?thesis using assms Inr mk
        by (simp add: extract_pdf_def extract_pdf_try_def ascii_def)
    next
      case False
      show ?thesis
      proof (cases "py_getitem data (ascii ''url'')")
        case (Inl e)
        then show ?thesis using assms Inr mk False
          by (simp add: extract_pdf_def extract_pdf_try_def ascii_def)
      next
        case gi: (Inr pdf_url)
        obtain pdf_bytes tr2 where
          dl: "download_pdf env pdf_url (tr @ [Log INFO ''Processing PDF: {}'' [pdf_url]]) =
                 (pdf_bytes, tr2)"
          by (cases "download_pdf env pdf_url (tr @ [Log INFO ''Processing PDF: {}'' [pdf_url]])")
        show ?thesis
        proof (cases "pdf_bytes = None \<or> pdf_bytes = Some []")
          case True
          then show ?thesis using assms Inr mk False gi dl
            by (auto simp: extract_pdf_def extract_pdf_try_def ascii_def)
        next
          case nf: False
          then obtain b where b: "pdf_bytes = Some b" "b \<noteq> []" by (cases pdf_bytes) auto
          have "fst (extract_pdf env request tr) = fst (extract_pdf_pipeline env pdf_url b tr2)"
            using Inr mk False gi dl b
            by (simp add: extract_pdf_def extract_pdf_try_def split: prod.splits)
          then show ?thesis using assms pipeline_success_shape[of env pdf_url b tr2] by auto
        qed
      qed
    qed
  qed
qed

lemma iteration_shape:
  "fst (extract_multiple_pdfs_iteration env i n u tr) = download_failed_entry u \<or>
   fst (extract_multiple_pdfs_iteration env i n u tr) = unreadable_entry u \<or>
   (\<exists>s. fst (extract_multiple_pdfs_iteration env i n u tr) = success_entry u s \<and>
        s \<noteq> [] \<and> 10 \<le> length (strip s))"
  by (auto simp: iteration_unfold extract_multiple_pdfs_pipeline_final strip_def
      split: prod.splits option.splits if_splits)

lemma entry_success_shape:
  assumes "e = download_failed_entry u \<or> e = unreadable_entry u \<or>
           (\<exists>s. e = success_entry u s \<and> s \<noteq> [] \<and> 10 \<le> length (strip s))"
      and "json_get e (ascii ''success'') = Some (JBool True)"
  shows "\<exists>u s. e = success_entry u s \<and> s \<noteq> [] \<and> 10 \<le> length (strip s)"
  using assms by (auto simp: download_failed_entry_def unreadable_entry_def ascii_def)

lemma loop_entries:
  assumes "\<forall>e\<in>set results. P e"
      and "\<And>i u tr. P (fst (extract_multiple_pdfs_iteration env i n u tr))"
  shows "\<forall>e\<in>set (fst (extract_multiple_pdfs_loop env i n urls results tr)). P e"
  using assms(1)
proof (induction urls arbitrary: i results tr)
  case Nil
  then show ?case by simp
next
  case (Cons u urls)
  obtain entry tr1 where it: "extract_multiple_pdfs_iteration env i n u tr = (entry, tr1)"
    by (cases "extract_multiple_pdfs_iteration env i n u tr")
  then have "P entry" using assms(2)[of i u tr] by simp
  then have "\<forall>e\<in>set (results @ [entry]). P e" using Cons.prems by simp
  from Cons.IH[OF this, of "Suc i" tr1] show ?case using it by simp
qed

lemma batch_results_from_loop:
  assumes "json_get (body (fst (extract_multiple_pdfs env request tr))) (ascii ''results'') =
             Some (JList results)"
  shows "\<exists>urls. results = fst (extract_multiple_pdfs_loop env 0 (length urls) urls [] tr)"
  using assms
  apply (auto simp: extract_multiple_pdfs_def extract_multiple_pdfs_try_def ascii_def
      split: sum.splits prod.splits if_splits json.splits)
  by (metis fst_conv)

text \<open>
  Claim C2. For every URL processed by either endpoint, a result is a success only if the
  text judged (the fallback text when the primary text was insufficient, the primary text
  otherwise) has trimmed length at least 10: every success response of \<open>/extract-pdf\<close> and
  every success entry of a batch carries a non-empty text of trimmed length at least 10
  and a \<open>length\<close> equal to the length of that text. Whenever the text judged is absent or
  of trimmed length below 10 the result is a failure, and otherwise it is the success
  carrying exactly that text.
\<close>

theorem success_requires_sufficient_text:
  "(status (fst (extract_pdf env request tr)) = 200 \<or>
    json_get (body (fst (extract_pdf env request tr))) (ascii ''success'') = Some (JBool True) \<longrightarrow>
      (\<exists>url s. fst (extract_pdf env request tr) = success_response url s \<and>
             s \<noteq> [] \<and> 10 \<le> length (strip s))) \<and>
   (json_get (body (fst (extract_multiple_pdfs env request tr))) (ascii ''results'') =
      Some (JList results) \<longrightarrow>
      (\<forall>entry\<in>set results.
         json_get entry (ascii ''success'') = Some (JBool True) \<longrightarrow>
           (\<exists>url s. entry = success_entry url s \<and> s \<noteq> [] \<and> 10 \<le> length (strip s)))) \<and>
   (insufficient (final_text env b) \<longrightarrow>
      (\<exists>n. fst (extract_pdf_pipeline env u b tr) = unreadable_response u n) \<and>
      fst (extract_multiple_pdfs_pipeline env u b tr) = unreadable_entry u) \<and>
   (\<not> insufficient (final_text env b) \<longrightarrow>
      (\<exists>s. final_text env b = Some s \<and>
           fst (extract_pdf_pipeline env u b tr) = success_response u s \<and>
           fst (extract_multiple_pdfs_pipeline env u b tr) = success_entry u s))"
proof (intro conjI impI)
  assume "status (fst (extract_pdf env request tr)) = 200 \<or>
    json_get (body (fst (extract_pdf env request tr))) (ascii ''success'') = Some (JBool True)"
  then show "\<exists>url s. fst (extract_pdf env request tr) = success_response url s \<and>
             s \<noteq> [] \<and> 10 \<le> length (strip s)"
    by (rule extract_pdf_success_shape)
next
  assume "json_get (body (fst (extract_multiple_pdfs env request tr))) (ascii ''results'') =
      Some (JList results)"
  then obtain urls where
    r: "results = fst (extract_multiple_pdfs_loop env 0 (length urls) urls [] tr)"
    using batch_results_from_loop by blast
  let ?P = "\<lambda>e. json_get e (ascii ''success'') = Some (JBool True) \<longrightarrow>
                 (\<exists>url s. e = success_entry url s \<and> s \<noteq> [] \<and> 10 \<le> length (strip s))"
  have "\<And>i u tr. ?P (fst (extract_multiple_pdfs_iteration env i (length urls) u tr))"
    using iteration_shape entry_success_shape by blast
  then have "\<forall>e\<in>set (fst (extract_multiple_pdfs_loop env 0 (length urls) urls [] tr)). ?P e"
    by (intro loop_entries) simp_all
  then show "\<forall>entry\<in>set results.
         json_get entry (ascii ''success'') = Some (JBool True) \<longrightarrow>
           (\<exists>url s. entry = success_entry url s \<and> s \<noteq> [] \<and> 10 \<le> length (strip s))"
    using r by simp
next
  assume a: "insufficient (final_text env b)"
  show "\<exists>n. fst (extract_pdf_pipeline env u b tr) = unreadable_response u n"
    using a by (auto simp: extract_pdf_pipeline_final insufficient_cases split: option.splits)
  show "fst (extract_multiple_pdfs_pipeline env u b tr) = unreadable_entry u"
    using a
    by (auto simp: extract_multiple_pdfs_pipeline_final insufficient_cases split: option.splits)
next
  assume a: "\<not> insufficient (final_text env b)"
  then show "\<exists>s. final_text env b = Some s \<and>
           fst (extract_pdf_pipeline env u b tr) = success_response u s \<and>
           fst (extract_multiple_pdfs_pipeline env u b tr) = success_entry u s"
    by (auto simp: extract_pdf_pipeline_final extract_multiple_pdfs_pipeline_final
        insufficient_cases split: option.splits)
qed

theorem success_requires_sufficient_text_witness:
  "status (fst (extract_pdf (sample_env pdf_served (one_page ''Hello, world'') (Inl parse_exc))
                  (url_request sample_url) [])) = 200 \<and>
   fst (extract_pdf (sample_env pdf_served (one_page ''Hello, world'') (Inl parse_exc))
          (url_request sample_url) []) =
     \<lparr>body = JDict [(ascii ''success'', JBool True),
                     (ascii ''text'', JStr (ascii ''Hello, world'')),
                     (ascii ''length'', JInt 12),
                     (ascii ''url'', sample_url)],
      status = 200\<rparr> \<and>
   (\<exists>url s. fst (extract_pdf (sample_env pdf_served (one_page ''Hello, world'') (Inl parse_exc))
                     (url_request sample_url) []) = success_response url s \<and>
            s \<noteq> [] \<and> 10 \<le> length (strip s)) \<and>
   json_get
     (body (fst (extract_multiple_pdfs
                   (sample_env pdf_served (one_page ''Hello, world'') (Inl parse_exc))
                   (urls_request (JList [sample_url])) [])))
     (ascii ''results'') = Some (JList [success_entry sample_url (ascii ''Hello, world'')]) \<and>
   json_get (success_entry sample_url (ascii ''Hello, world'')) (ascii ''success'') =
     Some (JBool True) \<and>
   (\<exists>url s. success_entry sample_url (ascii ''Hello, world'') = success_entry url s \<and>
            s \<noteq> [] \<and> 10 \<le> length (strip s)) \<and>
   insufficient
     (final_text (sample_env pdf_served (one_page ''short'') (one_page ''  tiny  '')) sample_pdf) \<and>
   fst (extract_multiple_pdfs_pipeline
          (sample_env pdf_served (one_page ''short'') (one_page ''  tiny  ''))
          sample_url sample_pdf []) = unreadable_entry sample_url \<and>
   \<not> insufficient
       (final_text (sample_env pdf_served (one_page ''short'') (one_page ''A longer text''))
          sample_pdf) \<and>
   fst (extract_pdf_pipeline
          (sample_env pdf_served (one_page ''short'') (one_page ''A longer text''))
          sample_url sample_pdf []) = success_response sample_url (ascii ''A longer text'')"
proof -
  let ?E = "sample_env pdf_served (one_page ''Hello, world'') (Inl parse_exc)"
  let ?E2 = "sample_env pdf_served (one_page ''short'') (one_page ''  tiny  '')"
  let ?E3 = "sample_env pdf_served (one_page ''short'') (one_page ''A longer text'')"
  let ?R = "url_request sample_url"
  let ?B = "urls_request (JList [sample_url])"
  have p: "primary_text ?E sample_pdf = Some (ascii ''Hello, world'')"
          "10 \<le> length (strip (ascii ''Hello, world''))"
    by (simp_all add: sample_primary_text strip_def isspace_def ascii_def)
  have np: "sample_pdf \<noteq> []" by (simp add: sample_pdf_def)
  have d: "\<And>tr. fst (download_pdf ?E sample_url tr) = Some sample_pdf"
    by (simp add: pdf_served_def sample_download)
  have q: "get_json ?R = Inr (JDict [(ascii ''url'', sample_url)])"
    by (simp add: url_request_def)
  have single: "fst (extract_pdf ?E ?R []) = success_response sample_url (ascii ''Hello, world'')"
    using extract_pdf_download_bytes[OF q, of sample_url ?E "[]" sample_pdf] d np p
    by (simp add: extract_pdf_pipeline_primary)
  have it: "\<And>i n tr. fst (extract_multiple_pdfs_iteration ?E i n sample_url tr) =
              success_entry sample_url (ascii ''Hello, world'')"
    using p np
    by (simp add: iteration_unfold pdf_served_def sample_download
        extract_multiple_pdfs_pipeline_primary)
  have qb: "get_json ?B = Inr (JDict [(ascii ''urls'', JList [sample_url])])"
    by (simp add: urls_request_def)
  have batch: "json_get (body (fst (extract_multiple_pdfs ?E ?B []))) (ascii ''results'') =
                 Some (JList [success_entry sample_url (ascii ''Hello, world'')])"
    using it[of 0 1 "[]"]
    by (auto simp: extract_multiple_pdfs_with_urls[OF qb] ascii_def split: prod.splits)
  have f2: "final_text ?E2 sample_pdf = Some (ascii ''tiny'')"
    by (simp add: final_text_def sample_primary_text sample_fallback_text insufficient_cases
        strip_def isspace_def ascii_def)
  have i2: "insufficient (final_text ?E2 sample_pdf)"
    by (simp add: f2 insufficient_cases) (simp add: strip_def isspace_def ascii_def)
  have f3: "final_text ?E3 sample_pdf = Some (ascii ''A longer text'')"
    by (simp add: final_text_def sample_primary_text sample_fallback_text insufficient_cases
        strip_def isspace_def ascii_def)
  have i3: "\<not> insufficient (final_text ?E3 sample_pdf)"
    by (simp add: f3 insufficient_cases) (simp add: strip_def isspace_def ascii_def)
  note t1 = success_requires_sufficient_text
              [where env = ?E and request = ?R and tr = "[]"]
  note t1b = success_requires_sufficient_text
              [where env = ?E and request = ?B and tr = "[]"
                 and results = "[success_entry sample_url (ascii ''Hello, world'')]"]
  note t2 = success_requires_sufficient_text
              [where env = ?E2 and b = sample_pdf and u = sample_url and tr = "[]"]
  note t3 = success_requires_sufficient_text
              [where env = ?E3 and b = sample_pdf and u = sample_url and tr = "[]"]
  have s200: "status (fst (extract_pdf ?E ?R [])) = 200"
    by (simp add: single success_response_def)
  have c1: "\<exists>url s. fst (extract_pdf ?E ?R []) = success_response url s \<and>
             s \<noteq> [] \<and> 10 \<le> length (strip s)"
    using t1 s200 by blast
  have c2a: "json_get (success_entry sample_url (ascii ''Hello, world'')) (ascii ''success'') =
               Some (JBool True)"
    by (simp add: success_entry_def ascii_def)
  have c2: "\<exists>url s. success_entry sample_url (ascii ''Hello, world'') = success_entry url s \<and>
              s \<noteq> [] \<and> 10 \<le> length (strip s)"
    using t1b batch c2a by simp
  have c3: "fst (extract_multiple_pdfs_pipeline ?E2 sample_url sample_pdf []) =
              unreadable_entry sample_url"
    using t2 i2 by blast
  have c4: "fst (extract_pdf_pipeline ?E3 sample_url sample_pdf []) =
              success_response sample_url (ascii ''A longer text'')"
    using t3 i3 f3 by auto
  have lit: "success_response sample_url (ascii ''Hello, world'') =
     \<lparr>body = JDict [(ascii ''success'', JBool True),
                     (ascii ''text'', JStr (ascii ''Hello, world'')),
                     (ascii ''length'', JInt 12),
                     (ascii ''url'', sample_url)],
      status = 200\<rparr>"
    by (simp add: success_response_def ascii_def)
  show ?thesis
    using s200 single lit c1 batch c2a c2 i2 c3 i3 c4 by (simp only: simp_thms)
qed

end
